theory Spec2Isabelle
  imports Complex_Main "HOL-Library.Word" "HOL-Library.Sublist"
begin

section \<open>JavaScript strings and the string operations the services use\<close>

text \<open>
  A JavaScript string is a sequence of UTF-16 code units. The regular expressions of
  the source carry no \<^verbatim>\<open>u\<close> flag, so they work on code units as well.
\<close>

type_synonym jschar = "16 word"
type_synonym jsstring = "jschar list"

definition ascii :: "string \<Rightarrow> jsstring" where
  "ascii s = map of_char s"

abbreviation DOLLAR :: jschar where "DOLLAR \<equiv> 0x24"
abbreviation BACKSLASH :: jschar where "BACKSLASH \<equiv> 0x5C"
abbreviation LBRACKET :: jschar where "LBRACKET \<equiv> 0x5B"
abbreviation RBRACKET :: jschar where "RBRACKET \<equiv> 0x5D"
abbreviation LBRACE :: jschar where "LBRACE \<equiv> 0x7B"
abbreviation RBRACE :: jschar where "RBRACE \<equiv> 0x7D"
abbreviation SLASH :: jschar where "SLASH \<equiv> 0x2F"
abbreviation DIVISION_SIGN :: jschar where "DIVISION_SIGN \<equiv> 0xF7"
abbreviation MIDDLE_DOT :: jschar where "MIDDLE_DOT \<equiv> 0xB7"

text \<open>
  The code units matched by \<^verbatim>\<open>\s\<close> in a regular expression and removed by
  \<^verbatim>\<open>String.prototype.trim\<close>: ECMAScript's WhiteSpace and LineTerminator.
\<close>

definition is_js_space :: "jschar \<Rightarrow> bool" where
  "is_js_space c \<longleftrightarrow>
     c = 0x09 \<or> c = 0x0A \<or> c = 0x0B \<or> c = 0x0C \<or> c = 0x0D \<or> c = 0x20 \<or>
     c = 0xA0 \<or> c = 0x1680 \<or> (0x2000 \<le> c \<and> c \<le> 0x200A) \<or>
     c = 0x2028 \<or> c = 0x2029 \<or> c = 0x202F \<or> c = 0x205F \<or> c = 0x3000 \<or> c = 0xFEFF"

definition js_trim :: "jsstring \<Rightarrow> jsstring" where
  "js_trim s = rev (dropWhile is_js_space (rev (dropWhile is_js_space s)))"

text \<open>
  \<^verbatim>\<open>s.replace(/re/g, rep)\<close>. A matcher says whether the expression matches at the
  start of the text it is given and, if so, which replacement text the match produces
  and how many code units it consumes. The scan goes from left to right: on a match the
  replacement is emitted and the scan resumes behind the match, otherwise the code unit
  is copied. The second argument counts the code units of a match still to be skipped.
  Every expression of the source consumes at least one code unit when it matches.
\<close>

type_synonym matcher = "jsstring \<Rightarrow> (jsstring \<times> nat) option"

fun replace_scan :: "matcher \<Rightarrow> nat \<Rightarrow> jsstring \<Rightarrow> jsstring" where
  "replace_scan m k [] = []"
| "replace_scan m (Suc k) (c # cs) = replace_scan m k cs"
| "replace_scan m 0 (c # cs) =
     (case m (c # cs) of
        None \<Rightarrow> c # replace_scan m 0 cs
      | Some (rep, n) \<Rightarrow> rep @ replace_scan m (n - 1) cs)"

definition js_replace_all :: "matcher \<Rightarrow> jsstring \<Rightarrow> jsstring" where
  "js_replace_all m s = replace_scan m 0 s"

text \<open>A literal pattern such as \<^verbatim>\<open>/\\times/g\<close>.\<close>

definition match_literal :: "jsstring \<Rightarrow> jsstring \<Rightarrow> matcher" where
  "match_literal pat rep s = (if prefix pat s then Some (rep, length pat) else None)"

section \<open>The markup normalizer\<close>

text \<open>
  \<^verbatim>\<open>/\$\$|\\\[|\\\]|\$/g\<close>: the alternatives are tried in the order written.
\<close>

definition match_delimiters :: matcher where
  "match_delimiters s =
     (if prefix [DOLLAR, DOLLAR] s then Some ([], 2)
      else if prefix [BACKSLASH, LBRACKET] s then Some ([], 2)
      else if prefix [BACKSLASH, RBRACKET] s then Some ([], 2)
      else if prefix [DOLLAR] s then Some ([], 1)
      else None)"

definition TIMES :: jsstring where "TIMES = BACKSLASH # ascii ''times''"
definition DIV :: jsstring where "DIV = BACKSLASH # ascii ''div''"
definition CDOT :: jsstring where "CDOT = BACKSLASH # ascii ''cdot''"
definition FRAC :: jsstring where "FRAC = BACKSLASH # ascii ''frac''"

text \<open>
  \<^verbatim>\<open>\s*\{([^}]+)\}\<close>: optional white space, an opening brace, a non-empty run of
  code units other than the closing brace (the capture), and the closing brace. Both
  quantifiers are greedy, and backtracking cannot help either of them: the position
  behind a shorter run holds a code unit that the next item of the pattern rejects.
  The result is the capture and the text behind the group.
\<close>

definition brace_group :: "jsstring \<Rightarrow> (jsstring \<times> jsstring) option" where
  "brace_group s =
     (case dropWhile is_js_space s of
        [] \<Rightarrow> None
      | c # r \<Rightarrow>
          if c \<noteq> LBRACE then None
          else
            let a = takeWhile (\<lambda>x. x \<noteq> RBRACE) r;
                r' = dropWhile (\<lambda>x. x \<noteq> RBRACE) r
            in if a = [] \<or> r' = [] then None else Some (a, tl r'))"

text \<open>
  \<^verbatim>\<open>/\\frac\s*\{([^}]+)\}\s*\{([^}]+)\}/g\<close> with the replacement
  \<^verbatim>\<open>'$1/$2'\<close>.
\<close>

definition match_frac :: matcher where
  "match_frac s =
     (if \<not> prefix FRAC s then None
      else
        case brace_group (drop (length FRAC) s) of
          None \<Rightarrow> None
        | Some (a, r) \<Rightarrow>
            (case brace_group r of
               None \<Rightarrow> None
             | Some (b, r') \<Rightarrow> Some (a @ SLASH # b, length s - length r')))"

text \<open>\<^verbatim>\<open>/[{}]/g\<close>\<close>

definition match_brace :: matcher where
  "match_brace s =
     (case s of
        [] \<Rightarrow> None
      | c # _ \<Rightarrow> if c = LBRACE \<or> c = RBRACE then Some ([], 1) else None)"

text \<open>The copy in the application layer (App.tsx), used for the clipboard.\<close>

definition convertLatexToPlainText_App :: "jsstring \<Rightarrow> jsstring" where
  "convertLatexToPlainText_App latex =
     (if latex = [] then []
      else
        js_trim
          (js_replace_all match_brace
            (js_replace_all match_frac
              (js_replace_all (match_literal CDOT [MIDDLE_DOT])
                (js_replace_all (match_literal DIV [DIVISION_SIGN])
                  (js_replace_all (match_literal TIMES (ascii ''x''))
                    (js_replace_all match_delimiters latex)))))))"

text \<open>The copy in the DocumentStore service, used for the plain-text columns.\<close>

definition convertLatexToPlainText :: "jsstring \<Rightarrow> jsstring" where
  "convertLatexToPlainText latex =
     (if latex = [] then []
      else
        js_trim
          (js_replace_all match_brace
            (js_replace_all match_frac
              (js_replace_all (match_literal CDOT [MIDDLE_DOT])
                (js_replace_all (match_literal DIV [DIVISION_SIGN])
                  (js_replace_all (match_literal TIMES (ascii ''x''))
                    (js_replace_all match_delimiters latex)))))))"


section \<open>The data model (types.ts)\<close>

datatype Level = Elementary | Middle | High

datatype Difficulty = Concept | Basic | Fundamental | Medium | Advanced | Intense | Top

text \<open>
  \<^verbatim>\<open>interface Problem\<close>: three mandatory markup fields and optional fields;
  \<open>None\<close> is an absent (undefined) property. The field \<^verbatim>\<open>id\<close> is named
  \<open>problem_id\<close> here. A row of the table \<^verbatim>\<open>math_problems\<close> and the JSON
  object posted to the relay backend are objects of this shape as well.
\<close>

record Problem =
  problem_id :: "int option"
  created_at :: "jsstring option"
  problem :: jsstring
  answer :: jsstring
  solution :: jsstring
  level :: "Level option"
  topic :: "jsstring option"
  difficulty :: "Difficulty option"
  problem_plain :: "jsstring option"
  answer_plain :: "jsstring option"
  solution_plain :: "jsstring option"

text \<open>A thrown JavaScript value, as far as the handlers inspect it.\<close>

datatype js_error = TypeError jsstring | OtherError jsstring

section \<open>DocumentStore service (supabaseService)\<close>

text \<open>
  The client object that \<^verbatim>\<open>createClient(url, key)\<close> returns. Whether the
  library's constructor throws is not decided by this repository: it is the parameter
  \<open>createClient_accepts\<close>.
\<close>

datatype SupabaseClient = SupabaseClient jsstring jsstring

definition initSupabase ::
  "(jsstring \<Rightarrow> jsstring \<Rightarrow> bool) \<Rightarrow> jsstring \<Rightarrow> jsstring \<Rightarrow>
   SupabaseClient option \<Rightarrow> SupabaseClient option \<times> bool" where
  "initSupabase createClient_accepts url key supabase =
     (if url \<noteq> [] \<and> key \<noteq> [] then
        (if createClient_accepts url key then (Some (SupabaseClient url key), True)
         else (None, False))
      else (supabase, False))"

text \<open>
  The calls that the connect functions of the DocumentStore and the RelayBackend make
  outside their own module: the constructor of the client library and the URL parser
  of the platform. The parser computes on its argument only; what the constructor
  does is the library's matter.
\<close>

datatype library_call = CreateClient jsstring jsstring | NewURL jsstring

text \<open>
  \<^verbatim>\<open>initSupabase\<close> once more, with the calls it makes recorded in their order
  beside its result (writing to the console is left out).
\<close>

definition initSupabase_traced ::
  "(jsstring \<Rightarrow> jsstring \<Rightarrow> bool) \<Rightarrow> jsstring \<Rightarrow> jsstring \<Rightarrow>
   SupabaseClient option \<Rightarrow> (SupabaseClient option \<times> bool) \<times> library_call list" where
  "initSupabase_traced createClient_accepts url key supabase =
     (if url \<noteq> [] \<and> key \<noteq> [] then
        (if createClient_accepts url key
         then ((Some (SupabaseClient url key), True), [CreateClient url key])
         else ((None, False), [CreateClient url key]))
      else ((supabase, False), []))"

text \<open>
  One call \<^verbatim>\<open>client.from(table).insert(rows)\<close>. The backend's answer is the
  parameter \<open>db_insert\<close>: \<open>Some msg\<close> is \<^verbatim>\<open>{ error }\<close> with that message.
\<close>

datatype db_call = Insert SupabaseClient jsstring "Problem list"

datatype db_error =
    ClientNotInitialized
  | DbSaveFailed jsstring

definition saveProblemToDb ::
  "SupabaseClient option \<Rightarrow> (db_call \<Rightarrow> jsstring option) \<Rightarrow>
   Problem \<Rightarrow> Level \<Rightarrow> jsstring \<Rightarrow> Difficulty \<Rightarrow> db_call list \<times> (db_error + unit)" where
  "saveProblemToDb supabase db_insert problemData lv tp df =
     (case supabase of
        None \<Rightarrow> ([], Inl ClientNotInitialized)
      | Some client \<Rightarrow>
          let row = \<lparr> problem_id = None, created_at = None,
                      problem = problem problemData,
                      answer = answer problemData,
                      solution = solution problemData,
                      level = Some lv, topic = Some tp, difficulty = Some df,
                      problem_plain = Some (convertLatexToPlainText (problem problemData)),
                      answer_plain = Some (convertLatexToPlainText (answer problemData)),
                      solution_plain = Some (convertLatexToPlainText (solution problemData)) \<rparr>;
              call = Insert client (ascii ''math_problems'') [row]
          in (case db_insert call of
                Some msg \<Rightarrow> ([call], Inl (DbSaveFailed msg))
              | None \<Rightarrow> ([call], Inr ())))"

section \<open>RelayBackend service (mongoDbService)\<close>

text \<open>
  A parsed URL with a special scheme, as in the URL Standard: the path is a list of
  segments, and \<open>authority\<close> stands for credentials, host and port as serialized.
  The parser behind \<^verbatim>\<open>new URL(s)\<close> belongs to the platform; the service
  functions take it as the parameter \<open>parseURL\<close> (\<open>Inl msg\<close>: it throws a TypeError
  with that message).
\<close>

record url =
  scheme :: jsstring
  authority :: jsstring
  path :: "jsstring list"
  query :: "jsstring option"
  fragment :: "jsstring option"

definition url_serialize :: "url \<Rightarrow> jsstring" where
  "url_serialize u =
     scheme u @ ascii ''://'' @ authority u @ concat (map (\<lambda>seg. SLASH # seg) (path u))
     @ (case query u of None \<Rightarrow> [] | Some q \<Rightarrow> ascii ''?'' @ q)
     @ (case fragment u of None \<Rightarrow> [] | Some f \<Rightarrow> ascii ''#'' @ f)"

text \<open>
  \<^verbatim>\<open>new URL(rel, base)\<close> for a relative reference that is a plain path of the
  segments \<open>segs\<close>: the base keeps scheme and authority, loses query and fragment and
  the last segment of its path, and the segments of the reference are appended.
\<close>

definition resolve_relative_path :: "jsstring list \<Rightarrow> url \<Rightarrow> url" where
  "resolve_relative_path segs base =
     base \<lparr> path := butlast (path base) @ segs, query := None, fragment := None \<rparr>"

definition initMongoDb ::
  "(jsstring \<Rightarrow> jsstring + url) \<Rightarrow> jsstring \<Rightarrow> jsstring option \<Rightarrow> jsstring option \<times> bool" where
  "initMongoDb parseURL u backendUrl =
     (if u \<noteq> [] \<and> (prefix (ascii ''http://'') u \<or> prefix (ascii ''https://'') u) then
        (case parseURL u of
           Inr _ \<Rightarrow> (Some u, True)
         | Inl _ \<Rightarrow> (None, False))
      else (backendUrl, False))"

text \<open>
  \<^verbatim>\<open>initMongoDb\<close> once more, with the calls it makes recorded in their order beside
  its result (writing to the console is left out).
\<close>

definition initMongoDb_traced ::
  "(jsstring \<Rightarrow> jsstring + url) \<Rightarrow> jsstring \<Rightarrow> jsstring option \<Rightarrow>
   (jsstring option \<times> bool) \<times> library_call list" where
  "initMongoDb_traced parseURL u backendUrl =
     (if u \<noteq> [] \<and> (prefix (ascii ''http://'') u \<or> prefix (ascii ''https://'') u) then
        (case parseURL u of
           Inr _ \<Rightarrow> ((Some u, True), [NewURL u])
         | Inl _ \<Rightarrow> ((None, False), [NewURL u]))
      else ((backendUrl, False), []))"

text \<open>
  JavaScript values as \<^verbatim>\<open>response.json()\<close> yields them. An object is the list
  of its own properties, each key once.
\<close>

datatype jsnum = Finite rat | PosInfinity | NegInfinity | NaN

datatype jsval =
    JNull
  | JBool bool
  | JNumber jsnum
  | JString jsstring
  | JArray "jsval list"
  | JObject "(jsstring \<times> jsval) list"

fun truthy :: "jsval \<Rightarrow> bool" where
  "truthy JNull = False"
| "truthy (JBool b) = b"
| "truthy (JNumber n) = (n \<noteq> Finite 0 \<and> n \<noteq> NaN)"
| "truthy (JString s) = (s \<noteq> [])"
| "truthy (JArray _) = True"
| "truthy (JObject _) = True"

text \<open>\<open>json_body = None\<close>: the body is not JSON and \<^verbatim>\<open>response.json()\<close> rejects.\<close>

record response =
  status :: nat
  statusText :: jsstring
  json_body :: "jsval option"

definition response_ok :: "response \<Rightarrow> bool" where
  "response_ok r \<longleftrightarrow> 200 \<le> status r \<and> status r \<le> 299"

record request =
  req_url :: jsstring
  req_method :: jsstring
  req_headers :: "(jsstring \<times> jsstring) list"
  req_body :: Problem

datatype fetch_outcome = FetchRejects js_error | FetchResponds response

text \<open>
  The text behind the fixed prefix of the rejection message: the server's
  \<^verbatim>\<open>message\<close> (converted to a string by the template) or the status line
  \<^verbatim>\<open>${response.status} ${response.statusText}\<close>.
\<close>

datatype error_detail = StatusLine nat jsstring | BodyMessage jsval

datatype mongo_error =
    BackendNotInitialized
  | SaveRejected error_detail
  | BackendUnreachable
  | Uncaught js_error

text \<open>
  \<^verbatim>\<open>errorData.message || errorMessage\<close> inside its own try: reading a property
  of \<^verbatim>\<open>null\<close> throws and is ignored like a body that is not JSON.
\<close>

definition server_error_message :: "response \<Rightarrow> error_detail" where
  "server_error_message r =
     (let errorMessage = StatusLine (status r) (statusText r) in
      case json_body r of
        None \<Rightarrow> errorMessage
      | Some JNull \<Rightarrow> errorMessage
      | Some (JObject props) \<Rightarrow>
          (case map_of props (ascii ''message'') of
             None \<Rightarrow> errorMessage
           | Some m \<Rightarrow> if truthy m then BodyMessage m else errorMessage)
      | Some _ \<Rightarrow> errorMessage)"

text \<open>The outer catch block of \<^verbatim>\<open>saveProblemToMongoDb\<close>, for a native error.\<close>

definition mongo_catch :: "js_error \<Rightarrow> mongo_error" where
  "mongo_catch e =
     (case e of
        TypeError msg \<Rightarrow> if sublist (ascii ''fetch'') msg then BackendUnreachable else Uncaught e
      | OtherError _ \<Rightarrow> Uncaught e)"

definition saveProblemToMongoDb ::
  "(jsstring \<Rightarrow> jsstring + url) \<Rightarrow> (request \<Rightarrow> fetch_outcome) \<Rightarrow> jsstring option \<Rightarrow>
   Problem \<Rightarrow> Level \<Rightarrow> jsstring \<Rightarrow> Difficulty \<Rightarrow> request list \<times> (mongo_error + unit)" where
  "saveProblemToMongoDb parseURL fetch backendUrl problemData lv tp df =
     (case backendUrl of
        None \<Rightarrow> ([], Inl BackendNotInitialized)
      | Some base \<Rightarrow>
          let payload = problemData \<lparr> level := Some lv, topic := Some tp, difficulty := Some df \<rparr>
          in (case parseURL base of
                Inl msg \<Rightarrow> ([], Inl (mongo_catch (TypeError msg)))
              | Inr b \<Rightarrow>
                  let endpoint =
                        url_serialize (resolve_relative_path [ascii ''api'', ascii ''problems''] b);
                      req = \<lparr> req_url = endpoint, req_method = ascii ''POST'',
                              req_headers = [(ascii ''Content-Type'', ascii ''application/json'')],
                              req_body = payload \<rparr>
                  in (case fetch req of
                        FetchRejects e \<Rightarrow> ([req], Inl (mongo_catch e))
                      | FetchResponds r \<Rightarrow>
                          if \<not> response_ok r then
                            ([req], Inl (SaveRejected (server_error_message r)))
                          else ([req], Inr ()))))"

text \<open>
  A parser for concrete runs. It accepts the URLs \<^verbatim>\<open>http(s)://host/seg/...\<close>
  whose host is made of dot-separated labels of lower-case letters and whose path
  segments are made of lower-case letters and digits; on these the platform's parser
  changes nothing, and a missing path is the path with one empty segment. Everything
  else it rejects.
\<close>

fun split_slash :: "jsstring \<Rightarrow> jsstring list" where
  "split_slash [] = [[]]"
| "split_slash (c # cs) =
     (if c = SLASH then [] # split_slash cs
      else (case split_slash cs of
              [] \<Rightarrow> [[c]]
            | seg # segs \<Rightarrow> (c # seg) # segs))"

definition is_lower :: "jschar \<Rightarrow> bool" where
  "is_lower c \<longleftrightarrow> 0x61 \<le> c \<and> c \<le> 0x7A"

definition is_digit :: "jschar \<Rightarrow> bool" where
  "is_digit c \<longleftrightarrow> 0x30 \<le> c \<and> c \<le> 0x39"

definition plain_host :: "jsstring \<Rightarrow> bool" where
  "plain_host h \<longleftrightarrow>
     h \<noteq> [] \<and> list_all (\<lambda>c. is_lower c \<or> c = 0x2E) h \<and>
     hd h \<noteq> 0x2E \<and> last h \<noteq> 0x2E \<and> \<not> sublist [0x2E, 0x2E] h"

definition plain_url_parse :: "jsstring \<Rightarrow> jsstring + url" where
  "plain_url_parse s =
     (let sch = (if prefix (ascii ''http://'') s then ascii ''http''
                 else if prefix (ascii ''https://'') s then ascii ''https'' else []);
          rest = drop (length sch + 3) s;
          h = takeWhile (\<lambda>c. c \<noteq> SLASH) rest;
          p = dropWhile (\<lambda>c. c \<noteq> SLASH) rest;
          segs = (if p = [] then [[]] else split_slash (tl p))
      in if sch \<noteq> [] \<and> plain_host h \<and> list_all (list_all (\<lambda>c. is_lower c \<or> is_digit c)) segs
         then Inr \<lparr> scheme = sch, authority = h, path = segs, query = None, fragment = None \<rparr>
         else Inl (ascii ''Invalid URL''))"

section \<open>CloudFileStore service (googleDriveService)\<close>

definition DISCOVERY_DOC :: jsstring where
  "DISCOVERY_DOC = ascii ''https://www.googleapis.com/discovery/v1/apis/drive/v3/rest''"

definition SCOPES :: jsstring where
  "SCOPES = ascii ''https://www.googleapis.com/auth/drive.file''"

text \<open>
  The module-level variables: \<open>gapi_set\<close> says that \<^verbatim>\<open>gapi\<close> and
  \<^verbatim>\<open>google\<close> have been assigned, \<open>tokenClient\<close> holds the client id and scope the
  token client was made with, and \<open>access_token\<close> is what
  \<^verbatim>\<open>gapi.client.getToken()\<close> returns.
\<close>

record google_module =
  gapi_set :: bool
  tokenClient :: "(jsstring \<times> jsstring) option"
  access_token :: "jsstring option"

text \<open>
  The pieces the templates of \<^verbatim>\<open>createProblemFileContent\<close> and of the file
  name interpolate; the fixed text between them is left out.
\<close>

record file_text =
  text_level :: Level
  text_topic :: jsstring
  text_difficulty :: Difficulty
  text_problem :: jsstring
  text_answer :: jsstring
  text_solution :: jsstring

record drive_upload =
  name_level :: Level
  name_topic :: jsstring
  name_time :: jsstring
  boundary :: jsstring
  file_content :: file_text

text \<open>The calls into Google's libraries, in the order they are made.\<close>

datatype google_call =
    GapiLoad jsstring
  | GapiClientInit "jsstring list"
  | InitTokenClient jsstring jsstring
  | Revoke jsstring
  | Upload drive_upload

text \<open>
  \<^verbatim>\<open>gapi.load\<close> fetches the client library, \<^verbatim>\<open>gapi.client.init\<close> fetches
  the discovery documents, \<^verbatim>\<open>revoke\<close> and the upload talk to Google's servers;
  \<^verbatim>\<open>initTokenClient\<close> only builds an object.
\<close>

fun is_network_call :: "google_call \<Rightarrow> bool" where
  "is_network_call (InitTokenClient _ _) = False"
| "is_network_call _ = True"

datatype thrown = ErrorObject js_error | NotAnError

text \<open>The rejection of \<^verbatim>\<open>initGoogleClient\<close>, with the original message if any.\<close>

datatype google_init_error = GoogleClientInitFailed "jsstring option"

fun init_failure :: "thrown \<Rightarrow> google_init_error" where
  "init_failure (ErrorObject (TypeError msg)) = GoogleClientInitFailed (Some msg)"
| "init_failure (ErrorObject (OtherError msg)) = GoogleClientInitFailed (Some msg)"
| "init_failure NotAnError = GoogleClientInitFailed None"

text \<open>
  \<open>client_init\<close> is the outcome of \<^verbatim>\<open>await gapi.client.init(...)\<close> and
  \<open>token_client_init\<close> that of \<^verbatim>\<open>initTokenClient\<close> for a client id
  (\<open>None\<close>: no exception). Google's scripts are taken to be loaded (the application
  awaits their load promises first) and the callback of \<^verbatim>\<open>gapi.load\<close> to run. The
  API key is not used by the source, and \<^verbatim>\<open>updateAuthStatus\<close> is only stored in
  the token callback.
\<close>

definition initGoogleClient ::
  "jsstring \<Rightarrow> jsstring \<Rightarrow> thrown option \<Rightarrow> (jsstring \<Rightarrow> thrown option) \<Rightarrow> google_module \<Rightarrow>
   google_module \<times> google_call list \<times> (google_init_error + unit)" where
  "initGoogleClient apiKey clientId client_init token_client_init gm =
     (let gm1 = gm \<lparr> gapi_set := True \<rparr>;
          loading = [GapiLoad (ascii ''client''), GapiClientInit [DISCOVERY_DOC]]
      in case client_init of
           Some e \<Rightarrow> (gm1, loading, Inl (init_failure e))
         | None \<Rightarrow>
             (case token_client_init clientId of
                Some e \<Rightarrow>
                  (gm1, loading @ [InitTokenClient clientId SCOPES], Inl (init_failure e))
              | None \<Rightarrow>
                  (gm1 \<lparr> tokenClient := Some (clientId, SCOPES) \<rparr>,
                   loading @ [InitTokenClient clientId SCOPES], Inr ())))"

text \<open>
  The call only asks Google to revoke the token and hands over a callback: when it
  returns, the module-level variables are what they were. The result is the list of
  the calls made.
\<close>

definition handleSignoutClick :: "google_module \<Rightarrow> google_call list" where
  "handleSignoutClick gm =
     (if gapi_set gm then
        (case access_token gm of
           Some t \<Rightarrow> [Revoke t]
         | None \<Rightarrow> [])
      else [])"

text \<open>\<^verbatim>\<open>s.split(sep)[0]\<close> for a separator that is not empty.\<close>

fun split_head :: "jsstring \<Rightarrow> jsstring \<Rightarrow> jsstring" where
  "split_head sep [] = []"
| "split_head sep (c # cs) = (if prefix sep (c # cs) then [] else c # split_head sep cs)"

datatype upload_outcome = UploadRejects | UploadResolves nat

datatype drive_error =
    NotLoggedIn
  | UploadStatusError nat
  | UploadRejected
  | DriveSaveFailed

text \<open>
  \<open>attempt\<close> is the result of the try block, in which the error carrying the response
  code is thrown; the catch block receives whatever the try block throws.
\<close>

definition saveProblemToDrive ::
  "google_module \<Rightarrow> (drive_upload \<Rightarrow> upload_outcome) \<Rightarrow> jsstring \<Rightarrow>
   Problem \<Rightarrow> Level \<Rightarrow> jsstring \<Rightarrow> Difficulty \<Rightarrow> google_call list \<times> (drive_error + unit)" where
  "saveProblemToDrive gm upload now problemData lv tp df =
     (if \<not> gapi_set gm \<or> access_token gm = None then ([], Inl NotLoggedIn)
      else
        let fileContent = \<lparr> text_level = lv, text_topic = tp, text_difficulty = df,
                              text_problem = problem problemData,
                              text_answer = answer problemData,
                              text_solution = solution problemData \<rparr>;
            req = \<lparr> name_level = lv, name_topic = split_head (ascii '' ('') tp, name_time = now,
                      boundary = ascii ''-------314159265358979323846'',
                      file_content = fileContent \<rparr>;
            attempt = (case upload req of
                         UploadRejects \<Rightarrow> Inl UploadRejected
                       | UploadResolves st \<Rightarrow>
                           if st \<noteq> 200 then Inl (UploadStatusError st) else Inr ())
        in (case attempt of
              Inl _ \<Rightarrow> ([Upload req], Inl DriveSaveFailed)
            | Inr u \<Rightarrow> ([Upload req], Inr u)))"

section \<open>The application component (App.tsx)\<close>

datatype connect_error = CheckUrlAndKey | EnterValidBackendUrl

datatype app_error = WordFileFailed

text \<open>
  The state variables of the component that the handlers below read or write (the
  suffix \<open>_st\<close> marks names that clash with fields of \<open>Problem\<close>), together with the
  module-level variables of the three services.
\<close>

record app_state =
  problems :: "Problem list"
  activeProblemIndex :: nat
  level_st :: Level
  topic_st :: jsstring
  difficulty_st :: Difficulty
  error_st :: "app_error option"
  isSaving :: bool
  saveError :: "db_error option"
  saveSuccess :: bool
  isSupabaseConnected :: bool
  supabaseError :: "connect_error option"
  isGoogleAuthReady :: bool
  isGoogleLoggedIn :: bool
  isSavingToDrive :: bool
  driveSaveError :: "drive_error option"
  driveSaveSuccess :: bool
  isMongoDbConnected :: bool
  mongoDbError :: "connect_error option"
  isSavingToMongo :: bool
  mongoDbSaveSuccess :: bool
  mongoDbSaveError :: "mongo_error option"
  isDownloading :: bool
  supabase :: "SupabaseClient option"
  backendUrl :: "jsstring option"
  google :: google_module

text \<open>\<^verbatim>\<open>problems[activeProblemIndex]\<close>, undefined out of range.\<close>

definition problemToSave :: "app_state \<Rightarrow> Problem option" where
  "problemToSave st =
     (if activeProblemIndex st < length (problems st)
      then Some (problems st ! activeProblemIndex st) else None)"

definition handleSaveToDb :: "(db_call \<Rightarrow> jsstring option) \<Rightarrow> app_state \<Rightarrow> app_state \<times> db_call list" where
  "handleSaveToDb db_insert st =
     (case problemToSave st of
        None \<Rightarrow> (st, [])
      | Some p \<Rightarrow>
          if \<not> isSupabaseConnected st then (st, [])
          else
            (case saveProblemToDb (supabase st) db_insert p (level_st st) (topic_st st) (difficulty_st st) of
               (calls, Inr _) \<Rightarrow>
                 (st \<lparr> isSaving := False, saveError := None, saveSuccess := True \<rparr>, calls)
             | (calls, Inl err) \<Rightarrow>
                 (st \<lparr> isSaving := False, saveError := Some err, saveSuccess := False \<rparr>, calls)))"

definition handleSaveToDrive ::
  "(drive_upload \<Rightarrow> upload_outcome) \<Rightarrow> jsstring \<Rightarrow> app_state \<Rightarrow> app_state \<times> google_call list" where
  "handleSaveToDrive upload now st =
     (case problemToSave st of
        None \<Rightarrow> (st, [])
      | Some p \<Rightarrow>
          if \<not> isGoogleLoggedIn st then (st, [])
          else
            (case saveProblemToDrive (google st) upload now p (level_st st) (topic_st st) (difficulty_st st) of
               (calls, Inr _) \<Rightarrow>
                 (st \<lparr> isSavingToDrive := False, driveSaveError := None, driveSaveSuccess := True \<rparr>, calls)
             | (calls, Inl err) \<Rightarrow>
                 (st \<lparr> isSavingToDrive := False, driveSaveError := Some err, driveSaveSuccess := False \<rparr>, calls)))"

definition handleSaveToMongo ::
  "(jsstring \<Rightarrow> jsstring + url) \<Rightarrow> (request \<Rightarrow> fetch_outcome) \<Rightarrow> app_state \<Rightarrow> app_state \<times> request list" where
  "handleSaveToMongo parseURL fetch st =
     (case problemToSave st of
        None \<Rightarrow> (st, [])
      | Some p \<Rightarrow>
          if \<not> isMongoDbConnected st then (st, [])
          else
            (case saveProblemToMongoDb parseURL fetch (backendUrl st) p (level_st st) (topic_st st) (difficulty_st st) of
               (reqs, Inr _) \<Rightarrow>
                 (st \<lparr> isSavingToMongo := False, mongoDbSaveError := None, mongoDbSaveSuccess := True \<rparr>, reqs)
             | (reqs, Inl err) \<Rightarrow>
                 (st \<lparr> isSavingToMongo := False, mongoDbSaveError := Some err, mongoDbSaveSuccess := False \<rparr>, reqs)))"

text \<open>The connect handlers; the credentials are the contents of the input fields.\<close>

definition handleSupabaseConnect ::
  "(jsstring \<Rightarrow> jsstring \<Rightarrow> bool) \<Rightarrow> jsstring \<Rightarrow> jsstring \<Rightarrow> app_state \<Rightarrow> app_state" where
  "handleSupabaseConnect createClient_accepts supabaseUrl supabaseAnonKey st =
     (case initSupabase createClient_accepts supabaseUrl supabaseAnonKey (supabase st) of
        (client, True) \<Rightarrow>
          st \<lparr> supabase := client, supabaseError := None, isSupabaseConnected := True \<rparr>
      | (client, False) \<Rightarrow>
          st \<lparr> supabase := client, supabaseError := Some CheckUrlAndKey,
               isSupabaseConnected := False \<rparr>)"

definition handleMongoDbConnect ::
  "(jsstring \<Rightarrow> jsstring + url) \<Rightarrow> jsstring \<Rightarrow> app_state \<Rightarrow> app_state" where
  "handleMongoDbConnect parseURL mongoDbBackendUrl st =
     (case initMongoDb parseURL mongoDbBackendUrl (backendUrl st) of
        (stored, True) \<Rightarrow>
          st \<lparr> backendUrl := stored, mongoDbError := None, isMongoDbConnected := True \<rparr>
      | (stored, False) \<Rightarrow>
          st \<lparr> backendUrl := stored, mongoDbError := Some EnterValidBackendUrl,
               isMongoDbConnected := False \<rparr>)"

text \<open>
  The disconnect buttons. For the DocumentStore and the RelayBackend the handler is the
  inline \<^verbatim>\<open>onClick\<close> of the button; for the CloudFileStore it is
  \<^verbatim>\<open>onSignout\<close>, which returns before the token is revoked.
\<close>

definition supabaseDisconnect :: "app_state \<Rightarrow> app_state" where
  "supabaseDisconnect st = st \<lparr> isSupabaseConnected := False \<rparr>"

definition mongoDbDisconnect :: "app_state \<Rightarrow> app_state" where
  "mongoDbDisconnect st = st \<lparr> isMongoDbConnected := False \<rparr>"

definition onSignout :: "app_state \<Rightarrow> app_state \<times> google_call list" where
  "onSignout st =
     (st \<lparr> driveSaveSuccess := False, driveSaveError := None, isGoogleAuthReady := False \<rparr>,
      handleSignoutClick (google st))"

text \<open>
  The callback that \<^verbatim>\<open>handleSignoutClick\<close> hands to \<^verbatim>\<open>revoke\<close>:
  \<^verbatim>\<open>gapi.client.setToken(null)\<close> and \<^verbatim>\<open>updateAuthStatus(false)\<close>, where the
  component passes \<^verbatim>\<open>setIsGoogleLoggedIn\<close> for \<^verbatim>\<open>updateAuthStatus\<close>. Google's
  library runs it at a later time, as a step of its own.
\<close>

definition revokeCallback :: "app_state \<Rightarrow> app_state" where
  "revokeCallback st =
     st \<lparr> google := (google st) \<lparr> access_token := None \<rparr>, isGoogleLoggedIn := False \<rparr>"

section \<open>The export to a Word file\<close>

text \<open>
  One fragment per problem: the number in its heading and the three raw markup texts.
  The rendered markup that the render service leaves in the container has the same
  shape. The fixed envelope of the final document is left out.
\<close>

record fragment_html =
  heading :: nat
  problem_div :: jsstring
  answer_div :: jsstring
  solution_div :: jsstring

type_synonym html = "fragment_html list"

record word_file =
  file_level :: Level
  file_topic :: jsstring
  document_body :: html

datatype node_content = AppContent | RenderDiv html | DownloadLink word_file

record dom_node =
  node_id :: nat
  content :: node_content

text \<open>
  The children of \<^verbatim>\<open>document.body\<close>, the identity the next created element
  gets, and the files the user has been handed.
\<close>

record browser =
  body :: "dom_node list"
  next_node :: nat
  downloads :: "word_file list"

definition appendChild :: "dom_node \<Rightarrow> browser \<Rightarrow> browser" where
  "appendChild n doc = doc \<lparr> body := body doc @ [n] \<rparr>"

definition removeChild :: "nat \<Rightarrow> browser \<Rightarrow> browser" where
  "removeChild i doc = doc \<lparr> body := filter (\<lambda>n. node_id n \<noteq> i) (body doc) \<rparr>"

text \<open>
  \<^verbatim>\<open>window.MathJax\<close>. A method maps the markup assigned to the container to the
  markup that \<^verbatim>\<open>innerHTML\<close> reads once the method is done; \<open>None\<close> as its
  result is a rejected promise or an exception.
\<close>

record MathJax =
  typesetPromise :: "(html \<Rightarrow> html option) option"
  typeset :: "(html \<Rightarrow> html option) option"

text \<open>
  What \<^verbatim>\<open>renderDiv.innerHTML\<close> reads when the markup assigned to it has not been
  typeset: the browser has parsed the markup and serializes the nodes again, which
  rewrites the angle brackets and the ampersands of the texts. The parser
  and the serializer belong to the browser; the function is left unspecified, so that
  nothing is assumed of its result.
\<close>

definition innerHTML_read_back :: "html \<Rightarrow> html" where
  "innerHTML_read_back = (SOME f. True)"

text \<open>
  Step 3 of the export, up to the reading of \<^verbatim>\<open>renderDiv.innerHTML\<close>. When
  the step fails, the container is shown with the markup it was given.
\<close>

definition typeset_container :: "MathJax option \<Rightarrow> html \<Rightarrow> html option" where
  "typeset_container mathjax contentHtml =
     (case mathjax of
        None \<Rightarrow> Some (innerHTML_read_back contentHtml)
      | Some mj \<Rightarrow>
          (case typesetPromise mj of
             Some render \<Rightarrow> render contentHtml
           | None \<Rightarrow>
               (case typeset mj of
                  Some render \<Rightarrow> render contentHtml
                | None \<Rightarrow> Some (innerHTML_read_back contentHtml))))"

definition handleDownloadAsWord ::
  "MathJax option \<Rightarrow> app_state \<Rightarrow> browser \<Rightarrow> app_state \<times> browser" where
  "handleDownloadAsWord mathjax st doc =
     (if problems st = [] then (st, doc)
      else
        let contentHtml =
              map (\<lambda>(index, p). \<lparr> heading = index + 1, problem_div = problem p,
                                   answer_div = answer p, solution_div = solution p \<rparr>)
                  (enumerate 0 (problems st));
            renderDiv = next_node doc;
            doc1 = appendChild \<lparr> node_id = renderDiv, content = RenderDiv contentHtml \<rparr>
                     (doc \<lparr> next_node := Suc renderDiv \<rparr>)
        in case typeset_container mathjax contentHtml of
             None \<Rightarrow> (st \<lparr> error_st := Some WordFileFailed, isDownloading := False \<rparr>, doc1)
           | Some renderedContent \<Rightarrow>
               let doc2 = removeChild renderDiv doc1;
                   file = \<lparr> file_level = level_st st,
                            file_topic = split_head (ascii '' ('') (topic_st st),
                            document_body = renderedContent \<rparr>;
                   link = next_node doc2;
                   doc3 = appendChild \<lparr> node_id = link, content = DownloadLink file \<rparr>
                            (doc2 \<lparr> next_node := Suc link \<rparr>);
                   doc4 = doc3 \<lparr> downloads := downloads doc3 @ [file] \<rparr>
               in (st \<lparr> error_st := None, isDownloading := False \<rparr>, removeChild link doc4))"

text \<open>
  The state the component starts in (the arguments of its \<^verbatim>\<open>useState\<close> calls and
  the initial values of the module-level variables). The first topic of the middle
  level comes from the constants module and is a parameter.
\<close>

definition initial_state :: "jsstring \<Rightarrow> app_state" where
  "initial_state first_topic =
     \<lparr> problems = [], activeProblemIndex = 0, level_st = Middle, topic_st = first_topic,
       difficulty_st = Concept, error_st = None,
       isSaving = False, saveError = None, saveSuccess = False,
       isSupabaseConnected = False, supabaseError = None,
       isGoogleAuthReady = False, isGoogleLoggedIn = False, isSavingToDrive = False,
       driveSaveError = None, driveSaveSuccess = False,
       isMongoDbConnected = False, mongoDbError = None, isSavingToMongo = False,
       mongoDbSaveSuccess = False, mongoDbSaveError = None,
       isDownloading = False,
       supabase = None, backendUrl = None,
       google = \<lparr> gapi_set = False, tokenClient = None, access_token = None \<rparr> \<rparr>"

section \<open>Notions the properties are stated with\<close>

text \<open>
  The markup tokens the specification lists for the normalizer: the dollar sign, the
  two braces and the four commands.
\<close>

definition markup_tokens :: "jsstring list" where
  "markup_tokens = [[DOLLAR], [LBRACE], [RBRACE], TIMES, DIV, CDOT, FRAC]"

definition plain_text :: "jsstring \<Rightarrow> bool" where
  "plain_text s \<longleftrightarrow> (\<forall>t \<in> set markup_tokens. \<not> sublist t s)"

text \<open>A text that starts or ends with white space.\<close>

definition untrimmed :: "jsstring \<Rightarrow> bool" where
  "untrimmed s \<longleftrightarrow> s \<noteq> [] \<and> (is_js_space (hd s) \<or> is_js_space (last s))"

text \<open>The record and the classification of the specification's end-to-end scenario.\<close>

definition scenario_record :: Problem where
  "scenario_record =
     \<lparr> problem_id = None, created_at = None,
       problem = ascii ''$2+2$'', answer = ascii ''4'',
       solution = FRAC @ ascii ''{4}{1}=4'',
       level = None, topic = None, difficulty = None,
       problem_plain = None, answer_plain = None, solution_plain = None \<rparr>"

section \<open>Evaluating the normalizer\<close>

lemmas string_eval = ascii_def TIMES_def DIV_def CDOT_def FRAC_def

lemmas normalizer_eval = js_replace_all_def match_literal_def match_delimiters_def
  brace_group_def match_frac_def match_brace_def js_trim_def is_js_space_def Let_def

lemma normalize_empty: "convertLatexToPlainText [] = []"
  by (simp add: convertLatexToPlainText_def)

lemma normalize_inline_math: "convertLatexToPlainText (ascii ''$x^2$'') = ascii ''x^2''"
  by (simp add: convertLatexToPlainText_def string_eval normalizer_eval)

lemma normalize_fraction: "convertLatexToPlainText (FRAC @ ascii ''{1}{2}'') = ascii ''1/2''"
  by (simp add: convertLatexToPlainText_def string_eval normalizer_eval)

lemma scenario_answer_plain: "convertLatexToPlainText (ascii ''4'') = ascii ''4''"
  by (simp add: convertLatexToPlainText_def string_eval normalizer_eval)

lemma scenario_solution_plain:
  "convertLatexToPlainText (FRAC @ ascii ''{4}{1}=4'') = ascii ''4/1=4''"
  by (simp add: convertLatexToPlainText_def string_eval normalizer_eval)

section \<open>A replacement that finds no match copies its input\<close>

lemma replace_scan_no_match:
  "(\<And>t. suffix t s \<Longrightarrow> m t = None) \<Longrightarrow> replace_scan m 0 s = s"
proof (induction s)
  case Nil
  show ?case by simp
next
  case (Cons c cs)
  have here: "m (c # cs) = None"
    by (rule Cons.prems) simp
  have rest: "replace_scan m 0 cs = cs"
  proof (rule Cons.IH)
    fix t assume "suffix t cs"
    then have "suffix t (c # cs)" by (rule suffix_ConsI)
    then show "m t = None" by (rule Cons.prems)
  qed
  show ?case by (simp add: here rest)
qed

lemma prefix_of_suffix_sublist:
  "prefix p t \<Longrightarrow> suffix t s \<Longrightarrow> sublist p s"
  by (auto simp: prefix_def suffix_def sublist_def)

lemma sublist_single: "sublist [c] s \<longleftrightarrow> c \<in> set s"
  by (induction s) (auto simp: sublist_Cons_right)

lemma js_replace_all_literal_absent:
  assumes "\<not> sublist pat s"
  shows "js_replace_all (match_literal pat rep) s = s"
  unfolding js_replace_all_def
proof (rule replace_scan_no_match)
  fix t assume "suffix t s"
  with assms have "\<not> prefix pat t" by (blast intro: prefix_of_suffix_sublist)
  then show "match_literal pat rep t = None" by (simp add: match_literal_def)
qed

lemma js_replace_all_frac_absent:
  assumes "\<not> sublist FRAC s"
  shows "js_replace_all match_frac s = s"
  unfolding js_replace_all_def
proof (rule replace_scan_no_match)
  fix t assume "suffix t s"
  with assms have "\<not> prefix FRAC t" by (blast intro: prefix_of_suffix_sublist)
  then show "match_frac t = None" by (simp add: match_frac_def)
qed

lemma js_replace_all_brace_absent:
  assumes "LBRACE \<notin> set s" "RBRACE \<notin> set s"
  shows "js_replace_all match_brace s = s"
  unfolding js_replace_all_def
proof (rule replace_scan_no_match)
  fix t assume "suffix t s"
  then have "set t \<subseteq> set s" by (rule set_mono_suffix)
  with assms show "match_brace t = None"
    by (cases t) (auto simp: match_brace_def)
qed

lemma js_replace_all_delimiters_absent:
  assumes "DOLLAR \<notin> set s"
    and "\<not> sublist [BACKSLASH, LBRACKET] s" and "\<not> sublist [BACKSLASH, RBRACKET] s"
  shows "js_replace_all match_delimiters s = s"
  unfolding js_replace_all_def
proof (rule replace_scan_no_match)
  fix t assume t: "suffix t s"
  then have "set t \<subseteq> set s" by (rule set_mono_suffix)
  with assms(1) have d: "DOLLAR \<notin> set t" by blast
  have "\<not> prefix [DOLLAR] t" "\<not> prefix [DOLLAR, DOLLAR] t"
    using d by (cases t; simp)+
  moreover have "\<not> prefix [BACKSLASH, LBRACKET] t" "\<not> prefix [BACKSLASH, RBRACKET] t"
    using assms(2,3) t by (blast intro: prefix_of_suffix_sublist)+
  ultimately show "match_delimiters t = None" by (simp add: match_delimiters_def)
qed

lemma dropWhile_hd_id: "s = [] \<or> \<not> P (hd s) \<Longrightarrow> dropWhile P s = s"
  by (cases s) auto

lemma js_trim_id:
  assumes "\<not> untrimmed s"
  shows "js_trim s = s"
proof (cases "s = []")
  case True
  then show ?thesis by (simp add: js_trim_def)
next
  case False
  with assms have h: "\<not> is_js_space (hd s)" and l: "\<not> is_js_space (last s)"
    by (simp_all add: untrimmed_def)
  have "dropWhile is_js_space s = s" using h by (simp add: dropWhile_hd_id)
  moreover have "dropWhile is_js_space (rev s) = rev s"
    using l False by (intro dropWhile_hd_id) (simp add: hd_rev)
  ultimately show ?thesis by (simp add: js_trim_def)
qed

section \<open>The normalizer on plain text\<close>

text \<open>
  Claim C4, as the specification states it, fails. A text without any of the listed
  tokens that starts with a blank loses the blank, because the last step trims; and a
  text without any of them that holds the display delimiters \<^verbatim>\<open>\[\<close> and
  \<^verbatim>\<open>\]\<close> loses these, because the first step removes them.
\<close>

theorem normalize_plain_text_counterexample:
  "plain_text (ascii '' a'') \<and> convertLatexToPlainText (ascii '' a'') \<noteq> ascii '' a''
   \<and> plain_text ([BACKSLASH, LBRACKET] @ ascii ''x'' @ [BACKSLASH, RBRACKET])
   \<and> convertLatexToPlainText ([BACKSLASH, LBRACKET] @ ascii ''x'' @ [BACKSLASH, RBRACKET])
       \<noteq> [BACKSLASH, LBRACKET] @ ascii ''x'' @ [BACKSLASH, RBRACKET]"
  by (simp add: plain_text_def markup_tokens_def sublist_Cons_right
      convertLatexToPlainText_def string_eval normalizer_eval)

text \<open>
  Claim C4, amended: the normalizer returns its input unchanged when the input
  contains none of the tokens \<^verbatim>\<open>$ { } \times \div \cdot \frac\<close>, contains neither
  of the display delimiters \<^verbatim>\<open>\[\<close> and \<^verbatim>\<open>\]\<close> (which the first step removes
  as well), and neither starts nor ends with white space (which the last step trims).
\<close>

theorem normalize_identity_on_trimmed_plain_text:
  assumes "plain_text s"
    and "\<not> sublist [BACKSLASH, LBRACKET] s" and "\<not> sublist [BACKSLASH, RBRACKET] s"
    and "\<not> untrimmed s"
  shows "convertLatexToPlainText s = s"
proof -
  from assms(1) have tok: "\<not> sublist [DOLLAR] s" "\<not> sublist [LBRACE] s" "\<not> sublist [RBRACE] s"
    "\<not> sublist TIMES s" "\<not> sublist DIV s" "\<not> sublist CDOT s" "\<not> sublist FRAC s"
    by (simp_all add: plain_text_def markup_tokens_def)
  then have ch: "DOLLAR \<notin> set s" "LBRACE \<notin> set s" "RBRACE \<notin> set s"
    by (simp_all add: sublist_single)
  have 1: "js_replace_all match_delimiters s = s"
    using ch(1) assms(2,3) by (rule js_replace_all_delimiters_absent)
  have 2: "js_replace_all (match_literal TIMES (ascii ''x'')) s = s"
    using tok(4) by (rule js_replace_all_literal_absent)
  have 3: "js_replace_all (match_literal DIV [DIVISION_SIGN]) s = s"
    using tok(5) by (rule js_replace_all_literal_absent)
  have 4: "js_replace_all (match_literal CDOT [MIDDLE_DOT]) s = s"
    using tok(6) by (rule js_replace_all_literal_absent)
  have 5: "js_replace_all match_frac s = s"
    using tok(7) by (rule js_replace_all_frac_absent)
  have 6: "js_replace_all match_brace s = s"
    using ch(2,3) by (rule js_replace_all_brace_absent)
  have 7: "js_trim s = s" using assms(4) by (rule js_trim_id)
  show ?thesis
    unfolding convertLatexToPlainText_def by (simp add: 1 2 3 4 5 6 7)
qed

theorem normalize_identity_on_trimmed_plain_text_witness:
  "plain_text (ascii ''2 x 3 = 6'')
   \<and> convertLatexToPlainText (ascii ''2 x 3 = 6'') = ascii ''2 x 3 = 6''"
proof -
  have p: "plain_text (ascii ''2 x 3 = 6'')"
    by (simp add: plain_text_def markup_tokens_def sublist_Cons_right string_eval)
  have a: "\<not> sublist [BACKSLASH, LBRACKET] (ascii ''2 x 3 = 6'')"
    by (simp add: sublist_Cons_right ascii_def)
  have b: "\<not> sublist [BACKSLASH, RBRACKET] (ascii ''2 x 3 = 6'')"
    by (simp add: sublist_Cons_right ascii_def)
  have c: "\<not> untrimmed (ascii ''2 x 3 = 6'')"
    by (simp add: untrimmed_def ascii_def is_js_space_def)
  from p normalize_identity_on_trimmed_plain_text [OF p a b c] show ?thesis by simp
qed

section \<open>The two copies of the normalizer\<close>

text \<open>
  Claim C10: the copy of the normalizer in the application layer and the copy in the
  DocumentStore service return the same output for every input.
\<close>

theorem normalizer_copies_agree:
  "convertLatexToPlainText_App = convertLatexToPlainText"
  by (rule ext) (simp add: convertLatexToPlainText_App_def convertLatexToPlainText_def)

section \<open>The DocumentStore save\<close>

text \<open>
  Claim C5: with a client, the save issues exactly one insert, of exactly one row, into
  \<^verbatim>\<open>math_problems\<close>, whatever the backend answers; the row holds the three raw
  markup fields, their three normalized texts and the classification. For the record
  and classification of the scenario, the row's \<^verbatim>\<open>answer_plain\<close> is \<^verbatim>\<open>4\<close> and
  its \<^verbatim>\<open>solution_plain\<close> is \<^verbatim>\<open>4/1=4\<close>.
\<close>

theorem saveProblemToDb_inserts_one_row:
  "fst (saveProblemToDb (Some client) db_insert p lv tp df) =
     [Insert client (ascii ''math_problems'')
        [\<lparr> problem_id = None, created_at = None,
           problem = problem p, answer = answer p, solution = solution p,
           level = Some lv, topic = Some tp, difficulty = Some df,
           problem_plain = Some (convertLatexToPlainText (problem p)),
           answer_plain = Some (convertLatexToPlainText (answer p)),
           solution_plain = Some (convertLatexToPlainText (solution p)) \<rparr>]]
   \<and> (\<exists>row. fst (saveProblemToDb (Some client) db_insert scenario_record Middle tp Basic) =
          [Insert client (ascii ''math_problems'') [row]]
        \<and> level row = Some Middle \<and> difficulty row = Some Basic \<and> topic row = Some tp
        \<and> answer_plain row = Some (ascii ''4'')
        \<and> solution_plain row = Some (ascii ''4/1=4''))"
proof -
  have one: "\<And>q l d. fst (saveProblemToDb (Some client) db_insert q l tp d) =
     [Insert client (ascii ''math_problems'')
        [\<lparr> problem_id = None, created_at = None,
           problem = problem q, answer = answer q, solution = solution q,
           level = Some l, topic = Some tp, difficulty = Some d,
           problem_plain = Some (convertLatexToPlainText (problem q)),
           answer_plain = Some (convertLatexToPlainText (answer q)),
           solution_plain = Some (convertLatexToPlainText (solution q)) \<rparr>]]"
    by (simp add: saveProblemToDb_def Let_def split: option.split)
  have fields: "answer scenario_record = ascii ''4''"
    "solution scenario_record = FRAC @ ascii ''{4}{1}=4''"
    by (simp_all add: scenario_record_def)
  show ?thesis
    by (simp add: one fields scenario_answer_plain scenario_solution_plain)
qed

section \<open>The RelayBackend service\<close>

lemmas url_eval = plain_url_parse_def plain_host_def is_lower_def is_digit_def
  url_serialize_def resolve_relative_path_def sublist_Cons_right Let_def

lemma plain_url_parse_host_v1:
  "plain_url_parse (ascii ''http://host/v1'') =
     Inr \<lparr> scheme = ascii ''http'', authority = ascii ''host'', path = [ascii ''v1''],
           query = None, fragment = None \<rparr>"
  by (simp add: ascii_def url_eval)

lemma plain_url_parse_host_root:
  "plain_url_parse (ascii ''http://host/'') =
     Inr \<lparr> scheme = ascii ''http'', authority = ascii ''host'', path = [[]],
           query = None, fragment = None \<rparr>"
  by (simp add: ascii_def url_eval)

lemma plain_url_parse_no_authority:
  "plain_url_parse (ascii ''http://'') = Inl (ascii ''Invalid URL'')"
  by (simp add: ascii_def url_eval)

lemma initMongoDb_success:
  "initMongoDb parseURL u st = (stored, True) \<longleftrightarrow>
     stored = Some u \<and> u \<noteq> [] \<and> (prefix (ascii ''http://'') u \<or> prefix (ascii ''https://'') u)
     \<and> (\<exists>b. parseURL u = Inr b)"
  by (auto simp: initMongoDb_def split: sum.splits)

lemma initMongoDb_rejected:
  "u = [] \<or> \<not> (prefix (ascii ''http://'') u \<or> prefix (ascii ''https://'') u) \<Longrightarrow>
   initMongoDb parseURL u st = (st, False)"
  by (auto simp: initMongoDb_def)

lemma initMongoDb_clears:
  "fst (initMongoDb parseURL u (Some old)) = None \<longleftrightarrow>
     u \<noteq> [] \<and> (prefix (ascii ''http://'') u \<or> prefix (ascii ''https://'') u)
     \<and> (\<exists>msg. parseURL u = Inl msg)"
  by (auto simp: initMongoDb_def split: sum.splits)

lemma saveProblemToMongoDb_requests:
  "parseURL base = Inr b \<Longrightarrow>
   fst (saveProblemToMongoDb parseURL fetch (Some base) p lv tp df) =
     [\<lparr> req_url = url_serialize (resolve_relative_path [ascii ''api'', ascii ''problems''] b),
        req_method = ascii ''POST'',
        req_headers = [(ascii ''Content-Type'', ascii ''application/json'')],
        req_body = p \<lparr> level := Some lv, topic := Some tp, difficulty := Some df \<rparr> \<rparr>]"
  by (simp add: saveProblemToMongoDb_def Let_def split: fetch_outcome.split)

lemma saveProblemToMongoDb_result:
  "parseURL base = Inr b \<Longrightarrow>
   snd (saveProblemToMongoDb parseURL fetch (Some base) p lv tp df) =
     (case fetch \<lparr> req_url = url_serialize (resolve_relative_path [ascii ''api'', ascii ''problems''] b),
        req_method = ascii ''POST'',
        req_headers = [(ascii ''Content-Type'', ascii ''application/json'')],
        req_body = p \<lparr> level := Some lv, topic := Some tp, difficulty := Some df \<rparr> \<rparr> of
        FetchRejects e \<Rightarrow> Inl (mongo_catch e)
      | FetchResponds r \<Rightarrow>
          if response_ok r then Inr () else Inl (SaveRejected (server_error_message r)))"
  by (simp add: saveProblemToMongoDb_def Let_def split: fetch_outcome.split)

lemma mongo_catch_not_rejection: "mongo_catch e \<noteq> SaveRejected d"
  by (simp add: mongo_catch_def split: js_error.split)

lemma mongo_catch_unreachable:
  "\<exists>msg. e = TypeError msg \<and> sublist (ascii ''fetch'') msg \<Longrightarrow>
   mongo_catch e = BackendUnreachable"
  by (auto simp: mongo_catch_def)

lemma mongo_catch_rethrows:
  "\<not> (\<exists>msg. e = TypeError msg \<and> sublist (ascii ''fetch'') msg) \<Longrightarrow>
   mongo_catch e = Uncaught e"
  by (cases e) (auto simp: mongo_catch_def)

lemma server_error_message_body:
  "server_error_message r = BodyMessage m \<longleftrightarrow>
     (\<exists>props. json_body r = Some (JObject props)
        \<and> map_of props (ascii ''message'') = Some m \<and> truthy m)"
  by (auto simp: server_error_message_def Let_def split: option.splits jsval.splits)

lemma server_error_message_status:
  "\<not> (\<exists>props m. json_body r = Some (JObject props)
        \<and> map_of props (ascii ''message'') = Some m \<and> truthy m) \<Longrightarrow>
   server_error_message r = StatusLine (status r) (statusText r)"
  by (auto simp: server_error_message_def Let_def split: option.splits jsval.splits)

lemma endpoint_appended:
  assumes "query b = None" "fragment b = None" "path b \<noteq> []" "last (path b) = []"
  shows "url_serialize (resolve_relative_path [ascii ''api'', ascii ''problems''] b) =
         url_serialize b @ ascii ''api/problems''"
proof -
  have "path b = butlast (path b) @ [[]]"
    using assms(3,4) by (metis append_butlast_last_id)
  then have "concat (map (\<lambda>seg. SLASH # seg) (path b)) =
             concat (map (\<lambda>seg. SLASH # seg) (butlast (path b))) @ [SLASH]"
    by (metis (no_types, lifting) append_Nil2 concat.simps(1) concat.simps(2) concat_append
        list.simps(8) list.simps(9) map_append)
  then show ?thesis
    using assms(1,2) by (simp add: url_serialize_def resolve_relative_path_def ascii_def)
qed

text \<open>
  Claim C9: after a successful connect, a connect with a string that is empty or starts
  with neither \<^verbatim>\<open>http://\<close> nor \<^verbatim>\<open>https://\<close> returns false and leaves the
  stored URL in place, so that a following save still posts to the endpoint of the old
  URL; the stored URL is cleared exactly when the string has one of the prefixes and
  the URL parser rejects it.
\<close>

theorem initMongoDb_rejected_keeps_old_url:
  assumes "initMongoDb parseURL old st0 = (stored, True)"
    and "u = [] \<or> \<not> (prefix (ascii ''http://'') u \<or> prefix (ascii ''https://'') u)"
  shows "initMongoDb parseURL u stored = (Some old, False)
    \<and> (\<exists>b. parseURL old = Inr b
         \<and> map req_url (fst (saveProblemToMongoDb parseURL fetch
               (fst (initMongoDb parseURL u stored)) p lv tp df)) =
             [url_serialize (resolve_relative_path [ascii ''api'', ascii ''problems''] b)])
    \<and> (\<forall>u'. fst (initMongoDb parseURL u' stored) = None \<longleftrightarrow>
           u' \<noteq> [] \<and> (prefix (ascii ''http://'') u' \<or> prefix (ascii ''https://'') u')
           \<and> (\<exists>msg. parseURL u' = Inl msg))"
proof -
  from assms(1) obtain b where stored: "stored = Some old" and b: "parseURL old = Inr b"
    by (auto simp: initMongoDb_success)
  have kept: "initMongoDb parseURL u stored = (Some old, False)"
    using assms(2) stored by (simp add: initMongoDb_rejected)
  have h: "fst (initMongoDb parseURL u stored) = Some old"
    by (simp only: kept fst_conv)
  have req: "fst (saveProblemToMongoDb parseURL fetch (Some old) p lv tp df) =
     [\<lparr> req_url = url_serialize (resolve_relative_path [ascii ''api'', ascii ''problems''] b),
        req_method = ascii ''POST'',
        req_headers = [(ascii ''Content-Type'', ascii ''application/json'')],
        req_body = p \<lparr> level := Some lv, topic := Some tp, difficulty := Some df \<rparr> \<rparr>]"
    using b by (rule saveProblemToMongoDb_requests)
  have posts: "map req_url (fst (saveProblemToMongoDb parseURL fetch
               (fst (initMongoDb parseURL u stored)) p lv tp df)) =
             [url_serialize (resolve_relative_path [ascii ''api'', ascii ''problems''] b)]"
    by (simp add: h req)
  have ex: "\<exists>b. parseURL old = Inr b
         \<and> map req_url (fst (saveProblemToMongoDb parseURL fetch
               (fst (initMongoDb parseURL u stored)) p lv tp df)) =
             [url_serialize (resolve_relative_path [ascii ''api'', ascii ''problems''] b)]"
    by (rule exI [of _ b]) (rule conjI [OF b posts])
  have clears: "\<forall>u'. fst (initMongoDb parseURL u' stored) = None \<longleftrightarrow>
           u' \<noteq> [] \<and> (prefix (ascii ''http://'') u' \<or> prefix (ascii ''https://'') u')
           \<and> (\<exists>msg. parseURL u' = Inl msg)"
    unfolding stored by (simp only: initMongoDb_clears) simp
  show ?thesis by (rule conjI [OF kept conjI [OF ex clears]])
qed

theorem initMongoDb_rejected_keeps_old_url_witness:
  "initMongoDb plain_url_parse (ascii ''host/v2'') (Some (ascii ''http://host/v1'')) =
     (Some (ascii ''http://host/v1''), False)
   \<and> map req_url (fst (saveProblemToMongoDb plain_url_parse (\<lambda>_. FetchRejects (OtherError []))
        (fst (initMongoDb plain_url_parse (ascii ''host/v2'') (Some (ascii ''http://host/v1''))))
        scenario_record Middle (ascii ''Algebra'') Basic)) =
      [ascii ''http://host/api/problems'']
   \<and> fst (initMongoDb plain_url_parse (ascii ''http://'') (Some (ascii ''http://host/v1''))) = None"
proof -
  have prev: "initMongoDb plain_url_parse (ascii ''http://host/v1'') None =
      (Some (ascii ''http://host/v1''), True)"
    by (simp add: initMongoDb_def plain_url_parse_host_v1) (simp add: ascii_def)
  have bad: "ascii ''host/v2'' = [] \<or>
      \<not> (prefix (ascii ''http://'') (ascii ''host/v2'') \<or> prefix (ascii ''https://'') (ascii ''host/v2''))"
    by (simp add: ascii_def)
  have clear: "fst (initMongoDb plain_url_parse (ascii ''http://'') (Some (ascii ''http://host/v1''))) = None"
    by (simp add: initMongoDb_def plain_url_parse_no_authority) (simp add: ascii_def)
  have ser: "url_serialize (resolve_relative_path [ascii ''api'', ascii ''problems'']
      \<lparr> scheme = ascii ''http'', authority = ascii ''host'', path = [ascii ''v1''],
           query = None, fragment = None \<rparr>) = ascii ''http://host/api/problems''"
    by (simp add: url_serialize_def resolve_relative_path_def ascii_def)
  note t = initMongoDb_rejected_keeps_old_url [OF prev bad,
      of "\<lambda>_. FetchRejects (OtherError [])" scenario_record Middle "ascii ''Algebra''" Basic]
  from t have kept: "initMongoDb plain_url_parse (ascii ''host/v2'') (Some (ascii ''http://host/v1'')) =
     (Some (ascii ''http://host/v1''), False)"
    by (rule conjunct1)
  from t have "\<exists>b. plain_url_parse (ascii ''http://host/v1'') = Inr b
    \<and> map req_url (fst (saveProblemToMongoDb plain_url_parse (\<lambda>_. FetchRejects (OtherError []))
        (fst (initMongoDb plain_url_parse (ascii ''host/v2'') (Some (ascii ''http://host/v1''))))
        scenario_record Middle (ascii ''Algebra'') Basic)) =
      [url_serialize (resolve_relative_path [ascii ''api'', ascii ''problems''] b)]"
    by (rule conjunct1 [OF conjunct2])
  then obtain b where b: "plain_url_parse (ascii ''http://host/v1'') = Inr b"
    and r: "map req_url (fst (saveProblemToMongoDb plain_url_parse (\<lambda>_. FetchRejects (OtherError []))
        (fst (initMongoDb plain_url_parse (ascii ''host/v2'') (Some (ascii ''http://host/v1''))))
        scenario_record Middle (ascii ''Algebra'') Basic)) =
      [url_serialize (resolve_relative_path [ascii ''api'', ascii ''problems''] b)]"
    by (elim exE conjE)
  from b have beq: "b = \<lparr> scheme = ascii ''http'', authority = ascii ''host'', path = [ascii ''v1''],
           query = None, fragment = None \<rparr>"
    by (simp add: plain_url_parse_host_v1)
  have posts: "map req_url (fst (saveProblemToMongoDb plain_url_parse (\<lambda>_. FetchRejects (OtherError []))
        (fst (initMongoDb plain_url_parse (ascii ''host/v2'') (Some (ascii ''http://host/v1''))))
        scenario_record Middle (ascii ''Algebra'') Basic)) = [ascii ''http://host/api/problems'']"
    by (simp only: r beq ser)
  show ?thesis by (rule conjI [OF kept conjI [OF posts clear]])
qed

text \<open>
  Claim C7, as stated, fails in its endpoint: the path \<^verbatim>\<open>api/problems\<close> is not
  appended to the backend URL but resolved against it as a relative reference. For the
  accepted backend URL \<^verbatim>\<open>http://host/v1\<close> the request goes to
  \<^verbatim>\<open>http://host/api/problems\<close>.
\<close>

theorem relay_endpoint_counterexample:
  "initMongoDb plain_url_parse (ascii ''http://host/v1'') None = (Some (ascii ''http://host/v1''), True)
   \<and> map req_url (fst (saveProblemToMongoDb plain_url_parse
          (\<lambda>_. FetchResponds \<lparr> status = 201, statusText = ascii ''Created'', json_body = None \<rparr>)
          (Some (ascii ''http://host/v1'')) scenario_record Middle (ascii ''Algebra'') Basic))
       = [ascii ''http://host/api/problems'']
   \<and> ascii ''http://host/api/problems'' \<noteq> ascii ''http://host/v1'' @ ascii ''/api/problems''"
proof -
  have a: "initMongoDb plain_url_parse (ascii ''http://host/v1'') None = (Some (ascii ''http://host/v1''), True)"
    by (simp add: initMongoDb_def plain_url_parse_host_v1) (simp add: ascii_def)
  have b: "map req_url (fst (saveProblemToMongoDb plain_url_parse
          (\<lambda>_. FetchResponds \<lparr> status = 201, statusText = ascii ''Created'', json_body = None \<rparr>)
          (Some (ascii ''http://host/v1'')) scenario_record Middle (ascii ''Algebra'') Basic))
       = [ascii ''http://host/api/problems'']"
  proof -
    have "fst (saveProblemToMongoDb plain_url_parse
          (\<lambda>_. FetchResponds \<lparr> status = 201, statusText = ascii ''Created'', json_body = None \<rparr>)
          (Some (ascii ''http://host/v1'')) scenario_record Middle (ascii ''Algebra'') Basic) =
       [\<lparr> req_url = url_serialize (resolve_relative_path [ascii ''api'', ascii ''problems'']
              \<lparr> scheme = ascii ''http'', authority = ascii ''host'', path = [ascii ''v1''],
                query = None, fragment = None \<rparr>),
          req_method = ascii ''POST'',
          req_headers = [(ascii ''Content-Type'', ascii ''application/json'')],
          req_body = scenario_record \<lparr> level := Some Middle, topic := Some (ascii ''Algebra''),
                                       difficulty := Some Basic \<rparr> \<rparr>]"
      using plain_url_parse_host_v1 by (rule saveProblemToMongoDb_requests)
    then show ?thesis
      by (simp add: url_serialize_def resolve_relative_path_def ascii_def)
  qed
  have c: "ascii ''http://host/api/problems'' \<noteq> ascii ''http://host/v1'' @ ascii ''/api/problems''"
    by (simp add: ascii_def)
  show ?thesis by (rule conjI [OF a conjI [OF b c]])
qed

text \<open>
  Claim C7, amended: the save issues one POST request with a JSON content type whose
  body is the record with level, topic and difficulty set from the classification, to
  the URL that results from resolving \<^verbatim>\<open>api/problems\<close> against the parsed
  backend URL. When the parsed backend URL has neither query nor fragment and its path
  ends with an empty segment, that URL is the serialization of the parsed backend URL
  followed by \<^verbatim>\<open>api/problems\<close>; it is the configured string followed by
  \<^verbatim>\<open>api/problems\<close> when, besides, the configured string is that serialization.
  A response with a status from 200 to 299 is success. Any other response is a failure
  that carries the \<^verbatim>\<open>message\<close> property of the JSON body when the body is an
  object with a truthy one, and the status code and status text otherwise. A rejected
  fetch is never surfaced as such a failure: it is surfaced as the unreachable-backend
  error when the rejection is a TypeError whose message contains \<^verbatim>\<open>fetch\<close>, and
  as the original error, unchanged, in every other case.
\<close>

theorem relay_save_request_and_result:
  assumes "parseURL base = Inr b"
  shows
    "let req = \<lparr> req_url = url_serialize (resolve_relative_path [ascii ''api'', ascii ''problems''] b),
                 req_method = ascii ''POST'',
                 req_headers = [(ascii ''Content-Type'', ascii ''application/json'')],
                 req_body = p \<lparr> level := Some lv, topic := Some tp, difficulty := Some df \<rparr> \<rparr>;
         result = saveProblemToMongoDb parseURL fetch (Some base) p lv tp df
     in fst result = [req]
      \<and> (query b = None \<and> fragment b = None \<and> path b \<noteq> [] \<and> last (path b) = []
           \<longrightarrow> req_url req = url_serialize b @ ascii ''api/problems'')
      \<and> (\<forall>r. fetch req = FetchResponds r \<longrightarrow>
             (200 \<le> status r \<and> status r \<le> 299 \<longrightarrow> snd result = Inr ())
           \<and> (\<not> (200 \<le> status r \<and> status r \<le> 299) \<longrightarrow>
                 snd result = Inl (SaveRejected (server_error_message r)))
           \<and> (\<forall>m. server_error_message r = BodyMessage m \<longleftrightarrow>
                 (\<exists>props. json_body r = Some (JObject props)
                    \<and> map_of props (ascii ''message'') = Some m \<and> truthy m))
           \<and> ((\<forall>m. server_error_message r \<noteq> BodyMessage m) \<longrightarrow>
                 server_error_message r = StatusLine (status r) (statusText r)))
      \<and> (\<forall>e. fetch req = FetchRejects e \<longrightarrow>
             snd result = Inl (mongo_catch e) \<and> (\<forall>d. mongo_catch e \<noteq> SaveRejected d)
           \<and> (\<forall>msg. e = TypeError msg \<and> sublist (ascii ''fetch'') msg \<longrightarrow>
                 mongo_catch e = BackendUnreachable))
      \<and> (\<forall>e. fetch req = FetchRejects e \<longrightarrow>
             ((\<exists>msg. e = TypeError msg \<and> sublist (ascii ''fetch'') msg) \<longrightarrow>
                 snd result = Inl BackendUnreachable)
           \<and> (\<not> (\<exists>msg. e = TypeError msg \<and> sublist (ascii ''fetch'') msg) \<longrightarrow>
                 snd result = Inl (Uncaught e)))
      \<and> (url_serialize b = base \<and> query b = None \<and> fragment b = None
           \<and> path b \<noteq> [] \<and> last (path b) = []
           \<longrightarrow> req_url req = base @ ascii ''api/problems'')"
proof -
  define req where "req = \<lparr> req_url = url_serialize (resolve_relative_path [ascii ''api'', ascii ''problems''] b),
                 req_method = ascii ''POST'',
                 req_headers = [(ascii ''Content-Type'', ascii ''application/json'')],
                 req_body = p \<lparr> level := Some lv, topic := Some tp, difficulty := Some df \<rparr> \<rparr>"
  define result where "result = saveProblemToMongoDb parseURL fetch (Some base) p lv tp df"
  have url: "req_url req = url_serialize (resolve_relative_path [ascii ''api'', ascii ''problems''] b)"
    by (simp add: req_def)
  have 1: "fst result = [req]"
    unfolding result_def req_def using assms by (rule saveProblemToMongoDb_requests)
  have res: "snd result = (case fetch req of
        FetchRejects e \<Rightarrow> Inl (mongo_catch e)
      | FetchResponds r \<Rightarrow>
          if response_ok r then Inr () else Inl (SaveRejected (server_error_message r)))"
    unfolding result_def req_def using assms by (rule saveProblemToMongoDb_result)
  have 2: "query b = None \<and> fragment b = None \<and> path b \<noteq> [] \<and> last (path b) = []
           \<longrightarrow> req_url req = url_serialize b @ ascii ''api/problems''"
    unfolding url by (intro impI, elim conjE) (rule endpoint_appended)
  have 3: "\<forall>r. fetch req = FetchResponds r \<longrightarrow>
             (200 \<le> status r \<and> status r \<le> 299 \<longrightarrow> snd result = Inr ())
           \<and> (\<not> (200 \<le> status r \<and> status r \<le> 299) \<longrightarrow>
                 snd result = Inl (SaveRejected (server_error_message r)))
           \<and> (\<forall>m. server_error_message r = BodyMessage m \<longleftrightarrow>
                 (\<exists>props. json_body r = Some (JObject props)
                    \<and> map_of props (ascii ''message'') = Some m \<and> truthy m))
           \<and> ((\<forall>m. server_error_message r \<noteq> BodyMessage m) \<longrightarrow>
                 server_error_message r = StatusLine (status r) (statusText r))"
  proof (intro allI impI conjI)
    fix r assume r: "fetch req = FetchResponds r"
    { assume "200 \<le> status r \<and> status r \<le> 299"
      then show "snd result = Inr ()" by (simp add: res r response_ok_def) }
    { assume "\<not> (200 \<le> status r \<and> status r \<le> 299)"
      then show "snd result = Inl (SaveRejected (server_error_message r))"
        by (simp add: res r response_ok_def) }
    { fix m show "server_error_message r = BodyMessage m \<longleftrightarrow>
                 (\<exists>props. json_body r = Some (JObject props)
                    \<and> map_of props (ascii ''message'') = Some m \<and> truthy m)"
        by (rule server_error_message_body) }
    { assume n: "\<forall>m. server_error_message r \<noteq> BodyMessage m"
      show "server_error_message r = StatusLine (status r) (statusText r)"
      proof (rule server_error_message_status, rule notI)
        assume "\<exists>props m. json_body r = Some (JObject props)
            \<and> map_of props (ascii ''message'') = Some m \<and> truthy m"
        then obtain props m where j: "json_body r = Some (JObject props)"
          and mo: "map_of props (ascii ''message'') = Some m" and t: "truthy m"
          by (elim exE conjE)
        from j mo t have "\<exists>props. json_body r = Some (JObject props)
            \<and> map_of props (ascii ''message'') = Some m \<and> truthy m"
          by (intro exI conjI)
        then have "server_error_message r = BodyMessage m"
          by (simp only: server_error_message_body)
        with n show False by simp
      qed }
  qed
  have 4: "\<forall>e. fetch req = FetchRejects e \<longrightarrow>
             snd result = Inl (mongo_catch e) \<and> (\<forall>d. mongo_catch e \<noteq> SaveRejected d)
           \<and> (\<forall>msg. e = TypeError msg \<and> sublist (ascii ''fetch'') msg \<longrightarrow>
                 mongo_catch e = BackendUnreachable)"
  proof (intro allI impI conjI)
    fix e assume e: "fetch req = FetchRejects e"
    show "snd result = Inl (mongo_catch e)" by (simp add: res e)
    { fix d show "mongo_catch e \<noteq> SaveRejected d" by (rule mongo_catch_not_rejection) }
    { fix msg assume "e = TypeError msg \<and> sublist (ascii ''fetch'') msg"
      then show "mongo_catch e = BackendUnreachable" by (simp add: mongo_catch_def) }
  qed
  have 5: "\<forall>e. fetch req = FetchRejects e \<longrightarrow>
             ((\<exists>msg. e = TypeError msg \<and> sublist (ascii ''fetch'') msg) \<longrightarrow>
                 snd result = Inl BackendUnreachable)
           \<and> (\<not> (\<exists>msg. e = TypeError msg \<and> sublist (ascii ''fetch'') msg) \<longrightarrow>
                 snd result = Inl (Uncaught e))"
  proof (intro allI impI conjI)
    fix e assume e: "fetch req = FetchRejects e"
    have r: "snd result = Inl (mongo_catch e)" by (simp add: res e)
    { assume "\<exists>msg. e = TypeError msg \<and> sublist (ascii ''fetch'') msg"
      then have "mongo_catch e = BackendUnreachable" by (rule mongo_catch_unreachable)
      with r show "snd result = Inl BackendUnreachable" by simp }
    { assume "\<not> (\<exists>msg. e = TypeError msg \<and> sublist (ascii ''fetch'') msg)"
      then have "mongo_catch e = Uncaught e" by (rule mongo_catch_rethrows)
      with r show "snd result = Inl (Uncaught e)" by simp }
  qed
  have 6: "url_serialize b = base \<and> query b = None \<and> fragment b = None
           \<and> path b \<noteq> [] \<and> last (path b) = []
           \<longrightarrow> req_url req = base @ ascii ''api/problems''"
  proof (intro impI, elim conjE)
    assume s: "url_serialize b = base" and q: "query b = None" and f: "fragment b = None"
      and n: "path b \<noteq> []" and l: "last (path b) = []"
    have "req_url req = url_serialize b @ ascii ''api/problems''"
      unfolding url using q f n l by (rule endpoint_appended)
    then show "req_url req = base @ ascii ''api/problems''" by (simp only: s)
  qed
  have "fst result = [req] \<and> (query b = None \<and> fragment b = None \<and> path b \<noteq> [] \<and> last (path b) = []
           \<longrightarrow> req_url req = url_serialize b @ ascii ''api/problems'')
      \<and> (\<forall>r. fetch req = FetchResponds r \<longrightarrow>
             (200 \<le> status r \<and> status r \<le> 299 \<longrightarrow> snd result = Inr ())
           \<and> (\<not> (200 \<le> status r \<and> status r \<le> 299) \<longrightarrow>
                 snd result = Inl (SaveRejected (server_error_message r)))
           \<and> (\<forall>m. server_error_message r = BodyMessage m \<longleftrightarrow>
                 (\<exists>props. json_body r = Some (JObject props)
                    \<and> map_of props (ascii ''message'') = Some m \<and> truthy m))
           \<and> ((\<forall>m. server_error_message r \<noteq> BodyMessage m) \<longrightarrow>
                 server_error_message r = StatusLine (status r) (statusText r)))
      \<and> (\<forall>e. fetch req = FetchRejects e \<longrightarrow>
             snd result = Inl (mongo_catch e) \<and> (\<forall>d. mongo_catch e \<noteq> SaveRejected d)
           \<and> (\<forall>msg. e = TypeError msg \<and> sublist (ascii ''fetch'') msg \<longrightarrow>
                 mongo_catch e = BackendUnreachable))
      \<and> (\<forall>e. fetch req = FetchRejects e \<longrightarrow>
             ((\<exists>msg. e = TypeError msg \<and> sublist (ascii ''fetch'') msg) \<longrightarrow>
                 snd result = Inl BackendUnreachable)
           \<and> (\<not> (\<exists>msg. e = TypeError msg \<and> sublist (ascii ''fetch'') msg) \<longrightarrow>
                 snd result = Inl (Uncaught e)))
      \<and> (url_serialize b = base \<and> query b = None \<and> fragment b = None
           \<and> path b \<noteq> [] \<and> last (path b) = []
           \<longrightarrow> req_url req = base @ ascii ''api/problems'')"
    by (rule conjI [OF 1 conjI [OF 2 conjI [OF 3 conjI [OF 4 conjI [OF 5 6]]]]])
  then show ?thesis
    unfolding req_def result_def Let_def .
qed

theorem relay_save_request_and_result_witness:
  "map req_url (fst (saveProblemToMongoDb plain_url_parse
      (\<lambda>_. FetchResponds \<lparr> status = 500, statusText = ascii ''Internal Server Error'',
             json_body = Some (JObject [(ascii ''message'', JString (ascii ''duplicate''))]) \<rparr>)
      (Some (ascii ''http://host/'')) scenario_record Middle (ascii ''Algebra'') Basic))
     = [ascii ''http://host/api/problems'']
   \<and> snd (saveProblemToMongoDb plain_url_parse
      (\<lambda>_. FetchResponds \<lparr> status = 500, statusText = ascii ''Internal Server Error'',
             json_body = Some (JObject [(ascii ''message'', JString (ascii ''duplicate''))]) \<rparr>)
      (Some (ascii ''http://host/'')) scenario_record Middle (ascii ''Algebra'') Basic)
     = Inl (SaveRejected (BodyMessage (JString (ascii ''duplicate''))))"
proof -
  let ?resp = "\<lparr> status = 500, statusText = ascii ''Internal Server Error'',
             json_body = Some (JObject [(ascii ''message'', JString (ascii ''duplicate''))]) \<rparr>"
  let ?fetch = "\<lambda>_ :: request. FetchResponds ?resp"
  let ?b = "\<lparr> scheme = ascii ''http'', authority = ascii ''host'', path = [[]],
           query = None, fragment = None \<rparr>"
  let ?req = "\<lparr> req_url = url_serialize (resolve_relative_path [ascii ''api'', ascii ''problems''] ?b),
                 req_method = ascii ''POST'',
                 req_headers = [(ascii ''Content-Type'', ascii ''application/json'')],
                 req_body = scenario_record \<lparr> level := Some Middle, topic := Some (ascii ''Algebra''),
                                              difficulty := Some Basic \<rparr> \<rparr>"
  let ?result = "saveProblemToMongoDb plain_url_parse ?fetch (Some (ascii ''http://host/''))
                   scenario_record Middle (ascii ''Algebra'') Basic"
  note t = relay_save_request_and_result [where parseURL = plain_url_parse
      and base = "ascii ''http://host/''" and b = ?b and fetch = ?fetch and p = scenario_record
      and lv = Middle and tp = "ascii ''Algebra''" and df = Basic, unfolded Let_def,
      OF plain_url_parse_host_root]
  from t have sent: "fst ?result = [?req]"
    by (rule conjunct1)
  from t have "\<forall>r. ?fetch ?req = FetchResponds r \<longrightarrow>
             (200 \<le> status r \<and> status r \<le> 299 \<longrightarrow> snd ?result = Inr ())
           \<and> (\<not> (200 \<le> status r \<and> status r \<le> 299) \<longrightarrow>
                 snd ?result = Inl (SaveRejected (server_error_message r)))
           \<and> (\<forall>m. server_error_message r = BodyMessage m \<longleftrightarrow>
                 (\<exists>props. json_body r = Some (JObject props)
                    \<and> map_of props (ascii ''message'') = Some m \<and> truthy m))
           \<and> ((\<forall>m. server_error_message r \<noteq> BodyMessage m) \<longrightarrow>
                 server_error_message r = StatusLine (status r) (statusText r))"
    by (rule conjunct1 [OF conjunct2 [OF conjunct2]])
  then have "?fetch ?req = FetchResponds ?resp \<longrightarrow>
             (200 \<le> status ?resp \<and> status ?resp \<le> 299 \<longrightarrow> snd ?result = Inr ())
           \<and> (\<not> (200 \<le> status ?resp \<and> status ?resp \<le> 299) \<longrightarrow>
                 snd ?result = Inl (SaveRejected (server_error_message ?resp)))
           \<and> (\<forall>m. server_error_message ?resp = BodyMessage m \<longleftrightarrow>
                 (\<exists>props. json_body ?resp = Some (JObject props)
                    \<and> map_of props (ascii ''message'') = Some m \<and> truthy m))
           \<and> ((\<forall>m. server_error_message ?resp \<noteq> BodyMessage m) \<longrightarrow>
                 server_error_message ?resp = StatusLine (status ?resp) (statusText ?resp))"
    by (rule spec)
  then have rejected: "snd ?result = Inl (SaveRejected (server_error_message ?resp))"
    by simp
  have msg: "server_error_message ?resp = BodyMessage (JString (ascii ''duplicate''))"
    by (simp add: server_error_message_def) (simp add: ascii_def)
  have url: "url_serialize (resolve_relative_path [ascii ''api'', ascii ''problems''] ?b)
      = ascii ''http://host/api/problems''"
    by (simp add: url_serialize_def resolve_relative_path_def ascii_def)
  have a: "map req_url (fst ?result) = [ascii ''http://host/api/problems'']"
    by (simp add: sent url)
  have b: "snd ?result = Inl (SaveRejected (BodyMessage (JString (ascii ''duplicate''))))"
    by (simp only: rejected msg)
  show ?thesis by (rule conjI [OF a b])
qed

section \<open>Connecting\<close>

lemma initSupabase_result:
  "snd (initSupabase createClient_accepts u k sb) \<longleftrightarrow>
     u \<noteq> [] \<and> k \<noteq> [] \<and> createClient_accepts u k"
  by (simp add: initSupabase_def)

lemma initSupabase_empty:
  "u = [] \<or> k = [] \<Longrightarrow> initSupabase createClient_accepts u k sb = (sb, False)"
  by (auto simp: initSupabase_def)

lemma initMongoDb_result:
  "snd (initMongoDb parseURL u st) \<longleftrightarrow>
     u \<noteq> [] \<and> (prefix (ascii ''http://'') u \<or> prefix (ascii ''https://'') u)
     \<and> (\<exists>b. parseURL u = Inr b)"
  by (auto simp: initMongoDb_def split: sum.splits)

lemma initSupabase_traced_eq:
  "initSupabase_traced createClient_accepts u k sb =
     (initSupabase createClient_accepts u k sb,
      if u \<noteq> [] \<and> k \<noteq> [] then [CreateClient u k] else [])"
  by (simp add: initSupabase_traced_def initSupabase_def)

lemma initMongoDb_traced_eq:
  "initMongoDb_traced parseURL u st =
     (initMongoDb parseURL u st,
      if u \<noteq> [] \<and> (prefix (ascii ''http://'') u \<or> prefix (ascii ''https://'') u)
      then [NewURL u] else [])"
  by (simp add: initMongoDb_traced_def initMongoDb_def split: sum.split)

lemma initGoogleClient_first_calls:
  "take 2 (fst (snd (initGoogleClient apiKey clientId client_init token_client_init gm))) =
     [GapiLoad (ascii ''client''), GapiClientInit [DISCOVERY_DOC]]"
  by (simp add: initGoogleClient_def Let_def split: option.split)

text \<open>
  Claim C6, as stated, fails for the CloudFileStore: its connect checks no credential.
  With an empty API key and an empty client id (for which the token client cannot be
  made) the client library has been loaded and the discovery document fetched.
\<close>

theorem google_connect_counterexample:
  "filter is_network_call
     (fst (snd (initGoogleClient [] [] None
        (\<lambda>_. Some (ErrorObject (OtherError (ascii ''Missing required parameter client_id.''))))
        \<lparr> gapi_set = False, tokenClient = None, access_token = None \<rparr>))) =
   [GapiLoad (ascii ''client''), GapiClientInit [DISCOVERY_DOC]]"
  by (simp add: initGoogleClient_def Let_def)

text \<open>
  Claim C6, amended: the RelayBackend connect returns true only for a string that is
  not empty, starts with \<^verbatim>\<open>http://\<close> or \<^verbatim>\<open>https://\<close> and is accepted by the
  URL parser; it calls nothing at all for a string that is empty or has neither prefix,
  and nothing but the URL parser otherwise, so that it makes no call to the network.
  The DocumentStore connect returns true only for a URL and a key that are both not
  empty and that the client library's constructor accepts; with an empty URL or key it
  calls nothing at all and leaves the held client as it is, and otherwise it does not
  look at the shape of the URL: its one call is the constructor of the client library.
  The CloudFileStore connect validates nothing: whatever the credentials, it first
  loads the client library and fetches the discovery document.
\<close>

theorem connect_validates_credentials:
  "(snd (initMongoDb parseURL u st) \<longleftrightarrow>
      u \<noteq> [] \<and> (prefix (ascii ''http://'') u \<or> prefix (ascii ''https://'') u)
      \<and> (\<exists>b. parseURL u = Inr b))
   \<and> (snd (initSupabase createClient_accepts url key sb) \<longleftrightarrow>
      url \<noteq> [] \<and> key \<noteq> [] \<and> createClient_accepts url key)
   \<and> (url = [] \<or> key = [] \<longrightarrow> initSupabase createClient_accepts url key sb = (sb, False))
   \<and> take 2 (fst (snd (initGoogleClient apiKey clientId client_init token_client_init gm))) =
       [GapiLoad (ascii ''client''), GapiClientInit [DISCOVERY_DOC]]
   \<and> initMongoDb_traced parseURL u st =
       (initMongoDb parseURL u st,
        if u \<noteq> [] \<and> (prefix (ascii ''http://'') u \<or> prefix (ascii ''https://'') u)
        then [NewURL u] else [])
   \<and> initSupabase_traced createClient_accepts url key sb =
       (initSupabase createClient_accepts url key sb,
        if url \<noteq> [] \<and> key \<noteq> [] then [CreateClient url key] else [])"
proof -
  have s: "url = [] \<or> key = [] \<longrightarrow> initSupabase createClient_accepts url key sb = (sb, False)"
    by (rule impI) (rule initSupabase_empty)
  show ?thesis
    by (rule conjI [OF initMongoDb_result conjI [OF initSupabase_result
          conjI [OF s conjI [OF initGoogleClient_first_calls
            conjI [OF initMongoDb_traced_eq initSupabase_traced_eq]]]]])
qed

theorem connect_validates_credentials_witness:
  "\<not> snd (initMongoDb plain_url_parse (ascii ''ftp://host'') None)
   \<and> \<not> snd (initSupabase (\<lambda>_ _. True) [] (ascii ''key'') None)
   \<and> initSupabase (\<lambda>_ _. True) [] (ascii ''key'') None = (None, False)
   \<and> snd (initMongoDb_traced plain_url_parse (ascii ''ftp://host'') None) = []
   \<and> snd (initSupabase_traced (\<lambda>_ _. True) [] (ascii ''key'') None) = []"
proof -
  note t = connect_validates_credentials [where parseURL = plain_url_parse
      and u = "ascii ''ftp://host''" and st = None and createClient_accepts = "\<lambda>_ _. True"
      and url = "[]" and key = "ascii ''key''" and sb = None]
  have p: "\<not> (prefix (ascii ''http://'') (ascii ''ftp://host'')
               \<or> prefix (ascii ''https://'') (ascii ''ftp://host''))"
    by (simp add: ascii_def)
  from t have "snd (initMongoDb plain_url_parse (ascii ''ftp://host'') None) \<longleftrightarrow>
      ascii ''ftp://host'' \<noteq> [] \<and> (prefix (ascii ''http://'') (ascii ''ftp://host'')
         \<or> prefix (ascii ''https://'') (ascii ''ftp://host''))
      \<and> (\<exists>b. plain_url_parse (ascii ''ftp://host'') = Inr b)"
    by (rule conjunct1)
  with p have a: "\<not> snd (initMongoDb plain_url_parse (ascii ''ftp://host'') None)"
    by simp
  from t have "snd (initSupabase (\<lambda>_ _. True) [] (ascii ''key'') None) \<longleftrightarrow>
      ([]::jsstring) \<noteq> [] \<and> ascii ''key'' \<noteq> [] \<and> True"
    by (rule conjunct1 [OF conjunct2])
  then have b: "\<not> snd (initSupabase (\<lambda>_ _. True) [] (ascii ''key'') None)"
    by simp
  from t have "([]::jsstring) = [] \<or> ascii ''key'' = [] \<longrightarrow>
      initSupabase (\<lambda>_ _. True) [] (ascii ''key'') None = (None, False)"
    by (rule conjunct1 [OF conjunct2 [OF conjunct2]])
  then have c: "initSupabase (\<lambda>_ _. True) [] (ascii ''key'') None = (None, False)"
    by simp
  from t have "initMongoDb_traced plain_url_parse (ascii ''ftp://host'') None =
       (initMongoDb plain_url_parse (ascii ''ftp://host'') None,
        if ascii ''ftp://host'' \<noteq> [] \<and> (prefix (ascii ''http://'') (ascii ''ftp://host'')
             \<or> prefix (ascii ''https://'') (ascii ''ftp://host''))
        then [NewURL (ascii ''ftp://host'')] else [])"
    by (rule conjunct1 [OF conjunct2 [OF conjunct2 [OF conjunct2 [OF conjunct2]]]])
  with p have d: "snd (initMongoDb_traced plain_url_parse (ascii ''ftp://host'') None) = []"
    by simp
  from t have "initSupabase_traced (\<lambda>_ _. True) [] (ascii ''key'') None =
       (initSupabase (\<lambda>_ _. True) [] (ascii ''key'') None,
        if ([]::jsstring) \<noteq> [] \<and> ascii ''key'' \<noteq> [] then [CreateClient [] (ascii ''key'')] else [])"
    by (rule conjunct2 [OF conjunct2 [OF conjunct2 [OF conjunct2 [OF conjunct2]]]])
  then have e: "snd (initSupabase_traced (\<lambda>_ _. True) [] (ascii ''key'') None) = []"
    by simp
  show ?thesis by (rule conjI [OF a conjI [OF b conjI [OF c conjI [OF d e]]]])
qed

section \<open>Disconnecting\<close>

lemma handleSaveToDb_disconnected:
  "\<not> isSupabaseConnected st \<Longrightarrow> handleSaveToDb db_insert st = (st, [])"
  by (simp add: handleSaveToDb_def split: option.split)

lemma handleSaveToMongo_disconnected:
  "\<not> isMongoDbConnected st \<Longrightarrow> handleSaveToMongo parseURL fetch st = (st, [])"
  by (simp add: handleSaveToMongo_def split: option.split)

lemma handleSaveToDrive_signed_out:
  "\<not> isGoogleLoggedIn st \<Longrightarrow> handleSaveToDrive upload now st = (st, [])"
  by (simp add: handleSaveToDrive_def split: option.split)

lemma saveProblemToDrive_no_token:
  "access_token gm = None \<Longrightarrow>
   saveProblemToDrive gm upload now p lv tp df = ([], Inl NotLoggedIn)"
  by (simp add: saveProblemToDrive_def)

lemma saveProblemToDrive_with_token:
  "gapi_set gm \<Longrightarrow> access_token gm = Some t \<Longrightarrow>
   \<exists>req. fst (saveProblemToDrive gm upload now p lv tp df) = [Upload req]"
  by (simp add: saveProblemToDrive_def Let_def split: upload_outcome.split)

lemma onSignout_with_token:
  assumes "gapi_set (google st)" "access_token (google st) = Some t"
  shows "snd (onSignout st) = [Revoke t]"
    and "google (fst (onSignout st)) = google st"
    and "isGoogleLoggedIn (fst (onSignout st)) = isGoogleLoggedIn st"
  using assms by (simp_all add: onSignout_def handleSignoutClick_def)

lemma revokeCallback_clears:
  "access_token (google (revokeCallback st)) = None"
  "\<not> isGoogleLoggedIn (revokeCallback st)"
  by (simp_all add: revokeCallback_def)

text \<open>
  Claim C2, as stated, fails for the DocumentStore: the disconnect button only clears
  the connected flag of the component, the client stays in the module-level variable,
  and a save issued afterwards writes with it.
\<close>

theorem save_after_disconnect_counterexample:
  "\<not> isSupabaseConnected
       (supabaseDisconnect (handleSupabaseConnect (\<lambda>_ _. True)
          (ascii ''https://db.example'') (ascii ''key'') (initial_state [])))
   \<and> snd (saveProblemToDb
       (supabase (supabaseDisconnect (handleSupabaseConnect (\<lambda>_ _. True)
          (ascii ''https://db.example'') (ascii ''key'') (initial_state []))))
       (\<lambda>_. None) scenario_record Middle (ascii ''Algebra'') Basic) = Inr ()
   \<and> length (fst (saveProblemToDb
       (supabase (supabaseDisconnect (handleSupabaseConnect (\<lambda>_ _. True)
          (ascii ''https://db.example'') (ascii ''key'') (initial_state []))))
       (\<lambda>_. None) scenario_record Middle (ascii ''Algebra'') Basic)) = 1"
proof -
  have c: "handleSupabaseConnect (\<lambda>_ _. True) (ascii ''https://db.example'') (ascii ''key'')
        (initial_state []) =
      (initial_state []) \<lparr> supabase := Some (SupabaseClient (ascii ''https://db.example'') (ascii ''key'')),
         supabaseError := None, isSupabaseConnected := True \<rparr>"
    by (simp add: handleSupabaseConnect_def initSupabase_def ascii_def)
  show ?thesis
    by (simp add: c supabaseDisconnect_def saveProblemToDb_def Let_def)
qed

text \<open>
  Claim C2, amended: a disconnect invalidates the held handle for the CloudFileStore
  only, and there only when the callback of the revocation runs. For the DocumentStore
  and the RelayBackend the disconnect clears the connected flag and keeps the held
  handle, and the save handler of the application then returns without calling the
  dispatcher: no write and no error. For the CloudFileStore the sign-out asks for the
  revocation of the held token and returns with the token and the logged-in flag as
  they were, so that a save issued then still uploads; once the callback of the
  revocation has run, the token is cleared, the dispatcher fails with the
  not-logged-in error without an upload, and the save handler of the application
  returns without calling it.
\<close>

theorem disconnect_gates_save:
  "handleSaveToDb db_insert (supabaseDisconnect st) = (supabaseDisconnect st, [])
   \<and> supabase (supabaseDisconnect st) = supabase st
   \<and> handleSaveToMongo parseURL fetch (mongoDbDisconnect st) = (mongoDbDisconnect st, [])
   \<and> backendUrl (mongoDbDisconnect st) = backendUrl st
   \<and> (gapi_set (google st) \<and> access_token (google st) = Some t \<longrightarrow>
         snd (onSignout st) = [Revoke t]
       \<and> google (fst (onSignout st)) = google st
       \<and> isGoogleLoggedIn (fst (onSignout st)) = isGoogleLoggedIn st
       \<and> (\<exists>req. fst (saveProblemToDrive (google (fst (onSignout st))) upload now p lv tp df) =
             [Upload req])
       \<and> access_token (google (revokeCallback (fst (onSignout st)))) = None
       \<and> saveProblemToDrive (google (revokeCallback (fst (onSignout st)))) upload now p lv tp df =
           ([], Inl NotLoggedIn)
       \<and> handleSaveToDrive upload now (revokeCallback (fst (onSignout st))) =
           (revokeCallback (fst (onSignout st)), []))"
proof -
  have 1: "handleSaveToDb db_insert (supabaseDisconnect st) = (supabaseDisconnect st, [])"
    by (rule handleSaveToDb_disconnected) (simp add: supabaseDisconnect_def)
  have 2: "supabase (supabaseDisconnect st) = supabase st"
    by (simp add: supabaseDisconnect_def)
  have 3: "handleSaveToMongo parseURL fetch (mongoDbDisconnect st) = (mongoDbDisconnect st, [])"
    by (rule handleSaveToMongo_disconnected) (simp add: mongoDbDisconnect_def)
  have 4: "backendUrl (mongoDbDisconnect st) = backendUrl st"
    by (simp add: mongoDbDisconnect_def)
  have 5: "gapi_set (google st) \<and> access_token (google st) = Some t \<longrightarrow>
         snd (onSignout st) = [Revoke t]
       \<and> google (fst (onSignout st)) = google st
       \<and> isGoogleLoggedIn (fst (onSignout st)) = isGoogleLoggedIn st
       \<and> (\<exists>req. fst (saveProblemToDrive (google (fst (onSignout st))) upload now p lv tp df) =
             [Upload req])
       \<and> access_token (google (revokeCallback (fst (onSignout st)))) = None
       \<and> saveProblemToDrive (google (revokeCallback (fst (onSignout st)))) upload now p lv tp df =
           ([], Inl NotLoggedIn)
       \<and> handleSaveToDrive upload now (revokeCallback (fst (onSignout st))) =
           (revokeCallback (fst (onSignout st)), [])"
  proof (intro impI, elim conjE)
    assume g: "gapi_set (google st)" and a: "access_token (google st) = Some t"
    note o = onSignout_with_token [OF g a]
    have g': "gapi_set (google (fst (onSignout st)))"
      using g by (simp only: o(2))
    have a': "access_token (google (fst (onSignout st))) = Some t"
      using a by (simp only: o(2))
    have u: "\<exists>req. fst (saveProblemToDrive (google (fst (onSignout st))) upload now p lv tp df) =
             [Upload req]"
      using g' a' by (rule saveProblemToDrive_with_token)
    have c: "access_token (google (revokeCallback (fst (onSignout st)))) = None"
      by (rule revokeCallback_clears(1))
    have d: "saveProblemToDrive (google (revokeCallback (fst (onSignout st)))) upload now p lv tp df =
           ([], Inl NotLoggedIn)"
      using c by (rule saveProblemToDrive_no_token)
    have h: "handleSaveToDrive upload now (revokeCallback (fst (onSignout st))) =
           (revokeCallback (fst (onSignout st)), [])"
      using revokeCallback_clears(2) by (rule handleSaveToDrive_signed_out)
    show "snd (onSignout st) = [Revoke t]
       \<and> google (fst (onSignout st)) = google st
       \<and> isGoogleLoggedIn (fst (onSignout st)) = isGoogleLoggedIn st
       \<and> (\<exists>req. fst (saveProblemToDrive (google (fst (onSignout st))) upload now p lv tp df) =
             [Upload req])
       \<and> access_token (google (revokeCallback (fst (onSignout st)))) = None
       \<and> saveProblemToDrive (google (revokeCallback (fst (onSignout st)))) upload now p lv tp df =
           ([], Inl NotLoggedIn)
       \<and> handleSaveToDrive upload now (revokeCallback (fst (onSignout st))) =
           (revokeCallback (fst (onSignout st)), [])"
      by (rule conjI [OF o(1) conjI [OF o(2) conjI [OF o(3) conjI [OF u conjI [OF c conjI [OF d h]]]]]])
  qed
  show ?thesis by (rule conjI [OF 1 conjI [OF 2 conjI [OF 3 conjI [OF 4 5]]]])
qed

theorem disconnect_gates_save_witness:
  "snd (onSignout ((initial_state [])
      \<lparr> google := \<lparr> gapi_set = True, tokenClient = None, access_token = Some (ascii ''tok'') \<rparr> \<rparr>))
     = [Revoke (ascii ''tok'')]
   \<and> google (fst (onSignout ((initial_state [])
      \<lparr> google := \<lparr> gapi_set = True, tokenClient = None, access_token = Some (ascii ''tok'') \<rparr> \<rparr>)))
     = \<lparr> gapi_set = True, tokenClient = None, access_token = Some (ascii ''tok'') \<rparr>
   \<and> saveProblemToDrive (google (revokeCallback (fst (onSignout ((initial_state [])
      \<lparr> google := \<lparr> gapi_set = True, tokenClient = None, access_token = Some (ascii ''tok'') \<rparr> \<rparr>)))))
      (\<lambda>_. UploadResolves 200) [] scenario_record Middle [] Basic = ([], Inl NotLoggedIn)"
proof -
  let ?st = "(initial_state [])
      \<lparr> google := \<lparr> gapi_set = True, tokenClient = None, access_token = Some (ascii ''tok'') \<rparr> \<rparr>"
  have g: "gapi_set (google ?st) \<and> access_token (google ?st) = Some (ascii ''tok'')"
    by (simp add: initial_state_def)
  have gs: "google ?st = \<lparr> gapi_set = True, tokenClient = None, access_token = Some (ascii ''tok'') \<rparr>"
    by (simp add: initial_state_def)
  note t = disconnect_gates_save [where st = ?st and t = "ascii ''tok''"
      and upload = "\<lambda>_. UploadResolves 200" and now = "[]" and p = scenario_record
      and lv = Middle and tp = "[]" and df = Basic]
  from t have "gapi_set (google ?st) \<and> access_token (google ?st) = Some (ascii ''tok'') \<longrightarrow>
         snd (onSignout ?st) = [Revoke (ascii ''tok'')]
       \<and> google (fst (onSignout ?st)) = google ?st
       \<and> isGoogleLoggedIn (fst (onSignout ?st)) = isGoogleLoggedIn ?st
       \<and> (\<exists>req. fst (saveProblemToDrive (google (fst (onSignout ?st))) (\<lambda>_. UploadResolves 200) []
              scenario_record Middle [] Basic) = [Upload req])
       \<and> access_token (google (revokeCallback (fst (onSignout ?st)))) = None
       \<and> saveProblemToDrive (google (revokeCallback (fst (onSignout ?st)))) (\<lambda>_. UploadResolves 200) []
            scenario_record Middle [] Basic = ([], Inl NotLoggedIn)
       \<and> handleSaveToDrive (\<lambda>_. UploadResolves 200) [] (revokeCallback (fst (onSignout ?st))) =
            (revokeCallback (fst (onSignout ?st)), [])"
    by (rule conjunct2 [OF conjunct2 [OF conjunct2 [OF conjunct2]]])
  from this g have r: "snd (onSignout ?st) = [Revoke (ascii ''tok'')]
       \<and> google (fst (onSignout ?st)) = google ?st
       \<and> isGoogleLoggedIn (fst (onSignout ?st)) = isGoogleLoggedIn ?st
       \<and> (\<exists>req. fst (saveProblemToDrive (google (fst (onSignout ?st))) (\<lambda>_. UploadResolves 200) []
              scenario_record Middle [] Basic) = [Upload req])
       \<and> access_token (google (revokeCallback (fst (onSignout ?st)))) = None
       \<and> saveProblemToDrive (google (revokeCallback (fst (onSignout ?st)))) (\<lambda>_. UploadResolves 200) []
            scenario_record Middle [] Basic = ([], Inl NotLoggedIn)
       \<and> handleSaveToDrive (\<lambda>_. UploadResolves 200) [] (revokeCallback (fst (onSignout ?st))) =
            (revokeCallback (fst (onSignout ?st)), [])"
    by (rule mp)
  have r1: "snd (onSignout ?st) = [Revoke (ascii ''tok'')]"
    by (rule conjunct1 [OF r])
  have "google (fst (onSignout ?st)) = google ?st"
    by (rule conjunct1 [OF conjunct2 [OF r]])
  then have r2: "google (fst (onSignout ?st)) =
      \<lparr> gapi_set = True, tokenClient = None, access_token = Some (ascii ''tok'') \<rparr>"
    by (simp only: gs)
  have r3: "saveProblemToDrive (google (revokeCallback (fst (onSignout ?st)))) (\<lambda>_. UploadResolves 200) []
            scenario_record Middle [] Basic = ([], Inl NotLoggedIn)"
    by (rule conjunct1 [OF conjunct2 [OF conjunct2 [OF conjunct2 [OF conjunct2 [OF conjunct2 [OF r]]]]]])
  show ?thesis
    by (rule conjI [OF r1 conjI [OF r2 r3]])
qed

section \<open>The export\<close>

text \<open>
  Claim C3, as stated, fails: with no problems the export returns at once and hands no
  document to the user.
\<close>

theorem export_empty_counterexample:
  "problems (initial_state []) = []
   \<and> downloads (snd (handleDownloadAsWord
        (Some \<lparr> typesetPromise = Some Some, typeset = None \<rparr>) (initial_state [])
        \<lparr> body = [], next_node = 0, downloads = [] \<rparr>)) = []"
  by (simp add: handleDownloadAsWord_def initial_state_def)

text \<open>
  Claim C3, amended: the export called with an empty list of problems does nothing. It
  creates no container, produces and downloads no document, reports no error and
  leaves the state of the component and the page as they are.
\<close>

theorem export_empty_is_noop:
  "problems st = [] \<Longrightarrow> handleDownloadAsWord mathjax st doc = (st, doc)"
  by (simp add: handleDownloadAsWord_def)

theorem export_empty_is_noop_witness:
  "handleDownloadAsWord (Some \<lparr> typesetPromise = Some Some, typeset = None \<rparr>) (initial_state [])
     \<lparr> body = [], next_node = 0, downloads = [] \<rparr> =
   (initial_state [], \<lparr> body = [], next_node = 0, downloads = [] \<rparr>)"
proof -
  have "problems (initial_state []) = []" by (simp add: initial_state_def)
  then show ?thesis by (rule export_empty_is_noop)
qed

text \<open>
  When rendering succeeds and the identities of the nodes in the page are below the
  next identity, the export leaves the children of the body as they were and hands
  over one file.
\<close>

lemma export_success_releases_container:
  assumes "problems st \<noteq> []"
    and "typeset_container mathjax
           (map (\<lambda>(index, p). \<lparr> heading = index + 1, problem_div = problem p,
                                answer_div = answer p, solution_div = solution p \<rparr>)
                (enumerate 0 (problems st))) = Some rendered"
    and "\<forall>n \<in> set (body doc). node_id n < next_node doc"
  shows "body (snd (handleDownloadAsWord mathjax st doc)) = body doc"
    and "downloads (snd (handleDownloadAsWord mathjax st doc)) =
           downloads doc @ [\<lparr> file_level = level_st st,
                               file_topic = split_head (ascii '' ('') (topic_st st),
                               document_body = rendered \<rparr>]"
proof -
  have f: "filter (\<lambda>n. node_id n \<noteq> Suc (next_node doc)) (body doc) = body doc"
    "filter (\<lambda>n. node_id n \<noteq> next_node doc) (body doc) = body doc"
    using assms(3) by (auto simp: filter_id_conv)
  show "body (snd (handleDownloadAsWord mathjax st doc)) = body doc"
    using assms(1,2) f
    by (simp add: handleDownloadAsWord_def Let_def appendChild_def removeChild_def)
  show "downloads (snd (handleDownloadAsWord mathjax st doc)) =
           downloads doc @ [\<lparr> file_level = level_st st,
                               file_topic = split_head (ascii '' ('') (topic_st st),
                               document_body = rendered \<rparr>]"
    using assms(1,2)
    by (simp add: handleDownloadAsWord_def Let_def appendChild_def removeChild_def)
qed

text \<open>
  Claim C1 does not hold of the code. When the promise of the render service rejects,
  the handler reports the failure and returns with the hidden container still among
  the children of the body: the removal stands in the try block behind the await, not
  in the finally block.
\<close>

theorem export_render_failure_leaves_container:
  "body (snd (handleDownloadAsWord
      (Some \<lparr> typesetPromise = Some (\<lambda>_. None), typeset = fallback \<rparr>)
      (st \<lparr> problems := p # ps \<rparr>) doc)) =
   body doc @
     [\<lparr> node_id = next_node doc,
        content = RenderDiv
          (map (\<lambda>(index, q). \<lparr> heading = index + 1, problem_div = problem q,
                               answer_div = answer q, solution_div = solution q \<rparr>)
               (enumerate 0 (p # ps))) \<rparr>]
   \<and> error_st (fst (handleDownloadAsWord
      (Some \<lparr> typesetPromise = Some (\<lambda>_. None), typeset = fallback \<rparr>)
      (st \<lparr> problems := p # ps \<rparr>) doc)) = Some WordFileFailed
   \<and> downloads (snd (handleDownloadAsWord
      (Some \<lparr> typesetPromise = Some (\<lambda>_. None), typeset = fallback \<rparr>)
      (st \<lparr> problems := p # ps \<rparr>) doc)) = downloads doc"
  by (simp add: handleDownloadAsWord_def typeset_container_def Let_def appendChild_def)

theorem export_render_failure_leaves_container_witness:
  "body (snd (handleDownloadAsWord
      (Some \<lparr> typesetPromise = Some (\<lambda>_. None), typeset = None \<rparr>)
      ((initial_state []) \<lparr> problems := [scenario_record] \<rparr>)
      \<lparr> body = [], next_node = 0, downloads = [] \<rparr>)) =
     [\<lparr> node_id = 0,
        content = RenderDiv
          [\<lparr> heading = 1, problem_div = ascii ''$2+2$'', answer_div = ascii ''4'',
             solution_div = FRAC @ ascii ''{4}{1}=4'' \<rparr>] \<rparr>]"
  using export_render_failure_leaves_container [where fallback = None and st = "initial_state []"
      and p = scenario_record and ps = "[]"
      and doc = "\<lparr> body = [], next_node = 0, downloads = [] \<rparr>"]
  by (simp add: scenario_record_def enumerate_eq_zip)

section \<open>The CloudFileStore save\<close>

text \<open>
  Claim C8 does not hold of the code. The error that carries the response code is
  thrown inside the try block whose catch block replaces every error by one fixed
  message, so that no error surfaced by the save carries the code.
\<close>

theorem drive_save_error_drops_status:
  "snd (saveProblemToDrive gm upload now p lv tp df) \<noteq> Inl (UploadStatusError st)"
  by (simp add: saveProblemToDrive_def Let_def split: upload_outcome.split)

theorem drive_save_error_drops_status_witness:
  "snd (saveProblemToDrive \<lparr> gapi_set = True, tokenClient = None, access_token = Some (ascii ''tok'') \<rparr>
         (\<lambda>_. UploadResolves 403) [] scenario_record Middle (ascii ''Algebra'') Basic)
     = Inl DriveSaveFailed
   \<and> snd (saveProblemToDrive \<lparr> gapi_set = True, tokenClient = None, access_token = Some (ascii ''tok'') \<rparr>
         (\<lambda>_. UploadResolves 403) [] scenario_record Middle (ascii ''Algebra'') Basic)
     \<noteq> Inl (UploadStatusError 403)"
proof -
  have a: "snd (saveProblemToDrive \<lparr> gapi_set = True, tokenClient = None, access_token = Some (ascii ''tok'') \<rparr>
         (\<lambda>_. UploadResolves 403) [] scenario_record Middle (ascii ''Algebra'') Basic)
     = Inl DriveSaveFailed"
    by (simp add: saveProblemToDrive_def Let_def)
  show ?thesis
    by (rule conjI [OF a drive_save_error_drops_status])
qed

end
